theory Spec2Isabelle
  imports Complex_Main
begin

section \<open>The Python runtime: exceptions, strings, arrays\<close>

text \<open>
  The repository is one script, \<^verbatim>\<open>ctrl_pulse_optim_example_Lindbladian_check_grad.py\<close>.
  It builds a fixed physical model out of QuTiP operators, hands it to QuTiP's pulse optimiser,
  generates initial control amplitudes, saves them, optionally checks the gradient, runs the
  optimisation and reports. The script is embedded statement by statement; what the libraries
  compute (QuTiP, SciPy, Matplotlib) is a parameter of the embedding, except for the operator
  algebra, whose documented meaning is matrix arithmetic on floating-point numbers.
\<close>

datatype exn = TypeError | ValueError | IndexError | LibraryError string

definition bind_e :: "exn + 'a \<Rightarrow> ('a \<Rightarrow> exn + 'b) \<Rightarrow> exn + 'b" where
  "bind_e r f = (case r of Inl e \<Rightarrow> Inl e | Inr x \<Rightarrow> f x)"

subsection \<open>\<^verbatim>\<open>str\<close> of an integer and \<^verbatim>\<open>str.format\<close>\<close>

definition digit_char :: "nat \<Rightarrow> char" where
  "digit_char d = ''0123456789'' ! d"

fun str_nat :: "nat \<Rightarrow> string" where
  "str_nat n = (if n < 10 then [digit_char n] else str_nat (n div 10) @ [digit_char (n mod 10)])"

definition str_int :: "int \<Rightarrow> string" where
  "str_int i = (if i < 0 then CHR ''-'' # str_nat (nat (- i)) else str_nat (nat i))"

text \<open>
  \<^verbatim>\<open>template.format(*args)\<close> for templates whose only replacement fields are the
  auto-numbered \<^verbatim>\<open>{}\<close>, with arguments already rendered by \<^verbatim>\<open>str\<close>. Too few arguments raise
  IndexError; a brace that is not part of \<^verbatim>\<open>{}\<close> raises ValueError; surplus arguments are ignored.
\<close>

fun py_format :: "string \<Rightarrow> string list \<Rightarrow> exn + string" where
  "py_format [] args = Inr []"
| "py_format (c # t) args =
     (if c = CHR ''{'' then
        (case t of
           [] \<Rightarrow> Inl ValueError
         | d # t' \<Rightarrow>
             if d = CHR ''}'' then
               (case args of
                  [] \<Rightarrow> Inl IndexError
                | a # as \<Rightarrow> bind_e (py_format t' as) (\<lambda>s. Inr (a @ s)))
             else Inl ValueError)
      else if c = CHR ''}'' then Inl ValueError
      else bind_e (py_format t args) (\<lambda>s. Inr (c # s)))"

subsection \<open>NumPy arrays of floats\<close>

text \<open>
  A two-dimensional array carries its shape, so that an array with no rows still has a column
  count. Floats are modelled by \<^typ>\<open>real\<close>: the script does no arithmetic on amplitudes.
\<close>

record array2 =
  nrows :: nat
  ncols :: nat
  rows :: "real list list"

definition shape :: "array2 \<Rightarrow> nat \<times> nat" where
  "shape a = (nrows a, ncols a)"

definition wf_array2 :: "array2 \<Rightarrow> bool" where
  "wf_array2 a = (length (rows a) = nrows a \<and> list_all (\<lambda>r. length r = ncols a) (rows a))"

text \<open>\<^verbatim>\<open>np.zeros([t, n])\<close>: a negative dimension raises ValueError.\<close>

definition np_zeros :: "int \<Rightarrow> int \<Rightarrow> exn + array2" where
  "np_zeros t n =
     (if t < 0 \<or> n < 0 then Inl ValueError
      else Inr \<lparr>nrows = nat t, ncols = nat n, rows = replicate (nat t) (replicate (nat n) 0)\<rparr>)"

text \<open>
  \<^verbatim>\<open>a[:, j] = v\<close> for a one-dimensional \<^verbatim>\<open>v\<close>: the column index must be in range
  (IndexError), and \<^verbatim>\<open>v\<close> must have one entry per row or be of length one, which NumPy
  broadcasts; any other length raises ValueError. The shape of \<^verbatim>\<open>a\<close> never changes.
\<close>

definition broadcast :: "nat \<Rightarrow> real list \<Rightarrow> real list" where
  "broadcast t v = (if length v = t then v else replicate t (hd v))"

definition set_column :: "array2 \<Rightarrow> nat \<Rightarrow> real list \<Rightarrow> exn + array2" where
  "set_column a j v =
     (if ncols a \<le> j then Inl IndexError
      else if length v \<noteq> nrows a \<and> length v \<noteq> 1 then Inl ValueError
      else Inr (a\<lparr>rows := map2 (\<lambda>r x. r[j := x]) (rows a) (broadcast (nrows a) v)\<rparr>))"

text \<open>\<^verbatim>\<open>a[:, j]\<close>: the column as a one-dimensional array, IndexError out of range.\<close>

definition get_column :: "array2 \<Rightarrow> nat \<Rightarrow> exn + real list" where
  "get_column a j = (if ncols a \<le> j then Inl IndexError else Inr (map (\<lambda>r. r ! j) (rows a)))"

text \<open>\<^verbatim>\<open>a.flatten()\<close>: row-major.\<close>

definition flatten :: "array2 \<Rightarrow> real list" where
  "flatten a = concat (rows a)"

text \<open>\<^verbatim>\<open>xs[:n]\<close>: a slice never raises; a negative bound counts from the end.\<close>

definition slice_to :: "'a list \<Rightarrow> int \<Rightarrow> 'a list" where
  "slice_to xs n = (if 0 \<le> n then take (nat n) xs else take (length xs - nat (- n)) xs)"

section \<open>Floating-point numbers\<close>

text \<open>
  Python's \<^verbatim>\<open>float\<close> and NumPy's \<^verbatim>\<open>float64\<close> are IEEE 754 binary64 numbers: 53 significant
  bits, and every arithmetic operation returns the exact result rounded to the nearest such
  number, a tie going to the one whose significand is even. A float is modelled by the real
  number it denotes and rounding by \<open>fl\<close>: the unit in the last place of \<open>x\<close> is
  \<open>2 ^ ulp_exp x\<close>, where the exponent of \<open>x\<close> is not taken below \<open>-1022\<close> (the subnormal
  numbers). Overflow to infinity, NaN and the sign of zero are not modelled; none arises in
  the operators the module builds.
\<close>

definition round_half_even :: "real \<Rightarrow> int" where
  "round_half_even x =
     (let n = \<lfloor>x\<rfloor>; r = x - of_int n
      in if r < 1 / 2 then n else if 1 / 2 < r then n + 1 else if even n then n else n + 1)"

definition ulp_exp :: "real \<Rightarrow> int" where
  "ulp_exp x = max \<lfloor>log 2 \<bar>x\<bar>\<rfloor> (- 1022) - 52"

definition fl :: "real \<Rightarrow> real" where
  "fl x = (if x = 0 then 0 else of_int (round_half_even (x / 2 powi ulp_exp x)) * 2 powi ulp_exp x)"

text \<open>
  A \<^verbatim>\<open>complex128\<close> is a pair of floats. Two of them are added componentwise and multiplied
  by the textbook formula, every product and every sum rounded.
\<close>

definition cadd :: "complex \<Rightarrow> complex \<Rightarrow> complex" where
  "cadd x y = Complex (fl (Re x + Re y)) (fl (Im x + Im y))"

definition cmul :: "complex \<Rightarrow> complex \<Rightarrow> complex" where
  "cmul x y =
     Complex (fl (fl (Re x * Re y) - fl (Im x * Im y))) (fl (fl (Re x * Im y) + fl (Im x * Re y)))"

section \<open>QuTiP operators\<close>

text \<open>
  The module builds its operators with QuTiP, which is not part of the repository. The
  functions it uses are given their documented meaning: a \<^verbatim>\<open>Qobj\<close> is a complex matrix
  (row-major) together with its tensor structure \<^verbatim>\<open>dims\<close>; \<^verbatim>\<open>sigmax()\<close>, \<^verbatim>\<open>sigmay()\<close>,
  \<^verbatim>\<open>sigmaz()\<close> are the Pauli matrices and \<^verbatim>\<open>identity(N)\<close> the unit matrix; \<^verbatim>\<open>tensor\<close> is the
  Kronecker product and concatenates the tensor structures; \<^verbatim>\<open>trans()\<close> transposes; a scalar
  times a \<^verbatim>\<open>Qobj\<close> scales every entry; sum and difference raise TypeError when the tensor
  structures or the shapes differ, and the other operations are total. Entries are
  \<^verbatim>\<open>complex128\<close> numbers, and every sum and product of entries is rounded.
\<close>

record qobj =
  data :: "complex list list"
  dims :: "nat list \<times> nat list"

definition Qobj :: "complex list list \<Rightarrow> qobj" where
  "Qobj m = \<lparr>data = m, dims = ([length m], [if m = [] then 0 else length (hd m)])\<rparr>"

definition sigmax :: qobj where
  "sigmax = \<lparr>data = [[0, 1], [1, 0]], dims = ([2], [2])\<rparr>"

definition sigmay :: qobj where
  "sigmay = \<lparr>data = [[0, - \<i>], [\<i>, 0]], dims = ([2], [2])\<rparr>"

definition sigmaz :: qobj where
  "sigmaz = \<lparr>data = [[1, 0], [0, - 1]], dims = ([2], [2])\<rparr>"

definition identity :: "nat \<Rightarrow> qobj" where
  "identity n =
     \<lparr>data = map (\<lambda>i. map (\<lambda>j. if i = j then 1 else 0) [0..<n]) [0..<n], dims = ([n], [n])\<rparr>"

definition kron :: "complex list list \<Rightarrow> complex list list \<Rightarrow> complex list list" where
  "kron A B = concat (map (\<lambda>ra. map (\<lambda>rb. concat (map (\<lambda>a. map (\<lambda>b. cmul a b) rb) ra)) B) A)"

definition tensor :: "qobj \<Rightarrow> qobj \<Rightarrow> qobj" where
  "tensor A B =
     \<lparr>data = kron (data A) (data B), dims = (fst (dims A) @ fst (dims B), snd (dims A) @ snd (dims B))\<rparr>"

definition qtrans :: "qobj \<Rightarrow> qobj" where
  "qtrans A = \<lparr>data = transpose (data A), dims = (snd (dims A), fst (dims A))\<rparr>"

definition smul :: "complex \<Rightarrow> qobj \<Rightarrow> qobj" where
  "smul c A = A\<lparr>data := map (map (\<lambda>x. cmul c x)) (data A)\<rparr>"

definition mat_shape :: "complex list list \<Rightarrow> nat list" where
  "mat_shape m = length m # map length m"

definition qadd :: "qobj \<Rightarrow> qobj \<Rightarrow> exn + qobj" where
  "qadd A B =
     (if dims A \<noteq> dims B \<or> mat_shape (data A) \<noteq> mat_shape (data B) then Inl TypeError
      else Inr (A\<lparr>data := map2 (map2 (\<lambda>x y. cadd x y)) (data A) (data B)\<rparr>))"

text \<open>\<^verbatim>\<open>A - B\<close> is \<^verbatim>\<open>A + (-B)\<close>, and negation, which flips signs, is exact.\<close>

definition qneg :: "qobj \<Rightarrow> qobj" where
  "qneg A = A\<lparr>data := map (map (\<lambda>x. - x)) (data A)\<rparr>"

definition qsub :: "qobj \<Rightarrow> qobj \<Rightarrow> exn + qobj" where
  "qsub A B = qadd A (qneg B)"

text \<open>
  \<^verbatim>\<open>hadamard_transform(N)\<close>: the \<open>N\<close>-qubit Hadamard gate, the \<open>N\<close>-fold tensor power of the
  single-qubit gate, which QuTiP obtains by dividing the matrix \<^verbatim>\<open>[[1, 1], [1, -1]]\<close> by
  \<^verbatim>\<open>sqrt(2)\<close>. Its entries are, up to sign, the float nearest to \<open>1 / s\<close>, where \<open>s\<close> is
  the float nearest to the square root of two.
\<close>

definition hadamard_entry :: real where
  "hadamard_entry = fl (1 / fl (sqrt 2))"

definition hadamard_1 :: qobj where
  "hadamard_1 =
     \<lparr>data = [[complex_of_real hadamard_entry, complex_of_real hadamard_entry],
              [complex_of_real hadamard_entry, - complex_of_real hadamard_entry]],
      dims = ([2], [2])\<rparr>"

fun hadamard_transform :: "nat \<Rightarrow> qobj" where
  "hadamard_transform 0 = \<lparr>data = [[1]], dims = ([], [])\<rparr>"
| "hadamard_transform (Suc 0) = hadamard_1"
| "hadamard_transform (Suc (Suc n)) = tensor hadamard_1 (hadamard_transform (Suc n))"

section \<open>The script: configuration and physical model (lines 42 to 111)\<close>

record config =
  example_name :: string
  log_level :: int
  gamma :: real
  n_ts :: int
  evo_time :: int
  fid_err_targ :: real
  max_iter :: int
  max_wall_time :: int
  min_grad :: real
  check_gradient :: bool
  p_type :: string

definition logging_INFO :: int where
  "logging_INFO = 20"

text \<open>The values the module assigns to its top-level parameters.\<close>

definition script_config :: config where
  "script_config =
     \<lparr>example_name = ''Lindblad'', log_level = logging_INFO, gamma = 1 / 10, n_ts = 10,
      evo_time = 5, fid_err_targ = 1 / 10 ^ 3, max_iter = 500, max_wall_time = 30,
      min_grad = 1 / 10 ^ 20, check_gradient = True, p_type = ''LIN''\<rparr>"

definition Sx :: qobj where "Sx = sigmax"
definition Sy :: qobj where "Sy = sigmay"
definition Sz :: qobj where "Sz = sigmaz"
definition Si :: qobj where "Si = identity 2"

definition Sd :: qobj where "Sd = Qobj [[0, 1], [0, 0]]"
definition Sm :: qobj where "Sm = Qobj [[0, 0], [1, 0]]"
definition Sd_m :: qobj where "Sd_m = Qobj [[1, 0], [0, 0]]"
definition Sm_d :: qobj where "Sm_d = Qobj [[0, 0], [0, 1]]"

text \<open>Line 64: \<^verbatim>\<open>gamma*(2*tensor(Sm, Sd.trans()) - (tensor(Sd_m, Si) + tensor(Si, Sd_m.trans())))\<close>.\<close>

definition L0_Ad :: "real \<Rightarrow> exn + qobj" where
  "L0_Ad g =
     bind_e (qadd (tensor Sd_m Si) (tensor Si (qtrans Sd_m))) (\<lambda>s.
     bind_e (qsub (smul 2 (tensor Sm (qtrans Sd))) s) (\<lambda>d.
     Inr (smul (complex_of_real g) d)))"

text \<open>Lines 67, 69 and 71: the three control generators.\<close>

definition LC_x :: "exn + qobj" where
  "LC_x = bind_e (qsub (tensor Sx Si) (tensor Si Sx)) (\<lambda>d. Inr (smul (- \<i>) d))"

definition LC_y :: "exn + qobj" where
  "LC_y = bind_e (qsub (tensor Sy Si) (tensor Si (qtrans Sy))) (\<lambda>d. Inr (smul (- \<i>) d))"

definition LC_z :: "exn + qobj" where
  "LC_z = bind_e (qsub (tensor Sz Si) (tensor Si Sz)) (\<lambda>d. Inr (smul (- \<i>) d))"

text \<open>
  The module's variables that describe the physics, in the order the module assigns them
  (lines 64 to 84). An exception in any assignment ends the module there.
\<close>

record model =
  v_L0_Ad :: qobj
  v_LC_x :: qobj
  v_LC_y :: qobj
  v_LC_z :: qobj
  drift :: qobj
  ctrls :: "qobj list"
  n_ctrls :: nat
  initial :: qobj
  had_gate :: qobj
  target_DP :: qobj

definition physics :: "real \<Rightarrow> exn + model" where
  "physics g =
     bind_e (L0_Ad g) (\<lambda>l0.
     bind_e LC_x (\<lambda>lx.
     bind_e LC_y (\<lambda>ly.
     bind_e LC_z (\<lambda>lz.
       let drift = l0;
           ctrls = [lz, lx];
           n_ctrls = length ctrls;
           initial = identity 4;
           had_gate = hadamard_transform 1;
           target_DP = tensor had_gate had_gate
       in Inr \<lparr>v_L0_Ad = l0, v_LC_x = lx, v_LC_y = ly, v_LC_z = lz, drift = drift,
               ctrls = ctrls, n_ctrls = n_ctrls, initial = initial, had_gate = had_gate,
               target_DP = target_DP\<rparr>))))"

text \<open>Line 111: \<^verbatim>\<open>f_ext = "{}_n_ts{}_ptype{}.txt".format(example_name, n_ts, p_type)\<close>.\<close>

definition f_ext :: "config \<Rightarrow> exn + string" where
  "f_ext cfg =
     py_format ''{}_n_ts{}_ptype{}.txt'' [example_name cfg, str_int (n_ts cfg), p_type cfg]"

text \<open>Line 143: \<^verbatim>\<open>pulsefile = "ctrl_amps_initial_" + f_ext\<close>.\<close>

definition pulsefile :: "string \<Rightarrow> string" where
  "pulsefile fext = ''ctrl_amps_initial_'' @ fext"

section \<open>The external libraries as a parameter\<close>

text \<open>
  Python objects owned by the libraries (the optimiser, its dynamics and pulse generator, the
  bound fidelity functions, figures and axes) are references into a library state \<open>'w\<close>,
  which also stands for the file system and the display. A library operation takes the state
  and returns either an exception or a value, and the state it leaves behind.
\<close>

type_synonym ref = nat

record opt_result =
  stats :: ref
  evo_full_final :: qobj
  fid_err :: real
  termination_reason :: string
  num_iter :: int
  wall_time :: real
  time :: "real list"
  initial_amps :: array2
  final_amps :: array2

datatype pyval =
    PNone
  | PBool bool
  | PInt int
  | PFloat real
  | PStr string
  | PRef ref
  | PQobj qobj
  | PList "pyval list"
  | PArr "real list"
  | PArr2 array2
  | PResult opt_result

type_synonym kwargs = "(string \<times> pyval) list"

type_synonym ('w, 'a) ext = "'w \<Rightarrow> (exn + 'a) \<times> 'w"

record 'w lib =
  create_pulse_optimizer :: "pyval list \<Rightarrow> kwargs \<Rightarrow> ('w, ref) ext"
  dynamics :: "ref \<Rightarrow> 'w \<Rightarrow> ref"
  pulse_generator :: "ref \<Rightarrow> 'w \<Rightarrow> ref"
  fid_err_func_wrapper :: "ref \<Rightarrow> 'w \<Rightarrow> ref"
  fid_err_grad_wrapper :: "ref \<Rightarrow> 'w \<Rightarrow> ref"
  ctrl_amps :: "ref \<Rightarrow> 'w \<Rightarrow> array2"
  gen_pulse :: "ref \<Rightarrow> ('w, real list) ext"
  initialize_controls :: "ref \<Rightarrow> array2 \<Rightarrow> ('w, unit) ext"
  save_amps :: "ref \<Rightarrow> string \<Rightarrow> ('w, unit) ext"
  check_grad :: "ref \<Rightarrow> ref \<Rightarrow> real list \<Rightarrow> ('w, real) ext"
  run_optimization :: "ref \<Rightarrow> pyval list \<Rightarrow> kwargs \<Rightarrow> ('w, opt_result) ext"
  stats_report :: "ref \<Rightarrow> ('w, unit) ext"
  timedelta :: "kwargs \<Rightarrow> ('w, ref) ext"
  plt_figure :: "('w, ref) ext"
  add_subplot :: "ref \<Rightarrow> pyval list \<Rightarrow> ('w, ref) ext"
  axes_set :: "ref \<Rightarrow> string \<Rightarrow> string \<Rightarrow> ('w, unit) ext"
  axes_plot :: "ref \<Rightarrow> real list \<Rightarrow> real list \<Rightarrow> ('w, unit) ext"
  plt_show :: "('w, unit) ext"

section \<open>Runs: what the script does, step by step\<close>

text \<open>
  A run is the list of the script's actions on the outside world, each with its outcome, then
  how the run ended (an uncaught exception, or normally), then the library state. An action is
  a console line, a call into a library with its positional and keyword arguments as the
  script wrote them, or a NumPy operation of the script itself. Console output and attribute
  reads are taken not to raise. A line printed through \<^verbatim>\<open>str.format\<close> is recorded as its
  template and the values substituted, not rendered.
\<close>

datatype callee = Fn string | Method ref string

datatype action =
    Print string
  | Print_format string "pyval list"
  | Call callee "pyval list" kwargs
  | Numpy string

datatype outcome = Raised exn | Returned pyval

type_synonym entry = "action \<times> outcome"

type_synonym ('w, 'a) prog = "'w \<Rightarrow> entry list \<times> (exn + 'a) \<times> 'w"

definition ret :: "'a \<Rightarrow> ('w, 'a) prog" where
  "ret x w = ([], Inr x, w)"

text \<open>
  Sequencing: the second statement runs only if the first ended normally. There is no
  operation that turns \<open>Inl\<close> back into \<open>Inr\<close>: the script has no \<^verbatim>\<open>try\<close>.
\<close>

definition then_do :: "('w, 'a) prog \<Rightarrow> ('a \<Rightarrow> ('w, 'b) prog) \<Rightarrow> ('w, 'b) prog" where
  "then_do m f w =
     (case m w of
        (t, Inl e, w') \<Rightarrow> (t, Inl e, w')
      | (t, Inr x, w') \<Rightarrow> (case f x w' of (t', r) \<Rightarrow> (t @ t', r)))"

definition print :: "string \<Rightarrow> ('w, unit) prog" where
  "print s w = ([(Print s, Returned PNone)], Inr (), w)"

definition print_format :: "string \<Rightarrow> pyval list \<Rightarrow> ('w, unit) prog" where
  "print_format s args w = ([(Print_format s args, Returned PNone)], Inr (), w)"

definition call ::
  "callee \<Rightarrow> pyval list \<Rightarrow> kwargs \<Rightarrow> ('a \<Rightarrow> pyval) \<Rightarrow> ('w, 'a) ext \<Rightarrow> ('w, 'a) prog" where
  "call c args kw conv op w =
     (case op w of
        (Inl e, w') \<Rightarrow> ([(Call c args kw, Raised e)], Inl e, w')
      | (Inr x, w') \<Rightarrow> ([(Call c args kw, Returned (conv x))], Inr x, w'))"

definition numpy :: "string \<Rightarrow> ('a \<Rightarrow> pyval) \<Rightarrow> exn + 'a \<Rightarrow> ('w, 'a) prog" where
  "numpy name conv r w =
     (case r of
        Inl e \<Rightarrow> ([(Numpy name, Raised e)], Inl e, w)
      | Inr x \<Rightarrow> ([(Numpy name, Returned (conv x))], Inr x, w))"

definition stars :: string where
  "stars = ''***********************************''"

definition newline :: char where
  "newline = CHR 0x0A"

section \<open>The script: lines 113 to 197\<close>

text \<open>Lines 127 to 132: the one call of the factory.\<close>

definition create_args :: "config \<Rightarrow> model \<Rightarrow> pyval list" where
  "create_args cfg m =
     [PQobj (drift m), PList (map PQobj (ctrls m)), PQobj (initial m), PQobj (target_DP m),
      PInt (n_ts cfg), PInt (evo_time cfg)]"

definition create_kwargs :: "config \<Rightarrow> kwargs" where
  "create_kwargs cfg =
     [(''fid_err_targ'', PFloat (fid_err_targ cfg)), (''min_grad'', PFloat (min_grad cfg)),
      (''max_iter'', PInt (max_iter cfg)), (''max_wall_time'', PInt (max_wall_time cfg)),
      (''init_pulse_type'', PStr (p_type cfg)), (''log_level'', PInt (log_level cfg)),
      (''gen_stats'', PBool True)]"

definition create_optimizer :: "config \<Rightarrow> model \<Rightarrow> 'w lib \<Rightarrow> ('w, ref) prog" where
  "create_optimizer cfg m L =
     call (Fn ''cpo.create_pulse_optimizer'') (create_args cfg m) (create_kwargs cfg) PRef
       (create_pulse_optimizer L (create_args cfg m) (create_kwargs cfg))"

text \<open>Lines 137 and 138: one pulse per control, written into its column.\<close>

fun fill_columns :: "'w lib \<Rightarrow> ref \<Rightarrow> nat list \<Rightarrow> array2 \<Rightarrow> ('w, array2) prog" where
  "fill_columns L p_gen [] a = ret a"
| "fill_columns L p_gen (j # js) a =
     then_do (call (Method p_gen ''gen_pulse'') [] [] PArr (gen_pulse L p_gen)) (\<lambda>v.
     then_do (numpy ''setitem'' PArr2 (set_column a j v)) (\<lambda>a'.
     fill_columns L p_gen js a'))"

definition gen_init_amps :: "config \<Rightarrow> model \<Rightarrow> 'w lib \<Rightarrow> ref \<Rightarrow> ('w, array2) prog" where
  "gen_init_amps cfg m L p_gen =
     then_do (numpy ''zeros'' PArr2 (np_zeros (n_ts cfg) (int (n_ctrls m)))) (\<lambda>a0.
     fill_columns L p_gen [0..<n_ctrls m] a0)"

text \<open>Lines 148 to 155: the gradient check, run only when \<^verbatim>\<open>check_gradient\<close> is set.\<close>

definition gradient_check :: "'w lib \<Rightarrow> ref \<Rightarrow> ref \<Rightarrow> ('w, unit) prog" where
  "gradient_check L optim dyn =
     then_do (print stars) (\<lambda>_.
     then_do (print ''Checking gradient'') (\<lambda>_ w.
       (let func = fid_err_func_wrapper L optim w;
            grad = fid_err_grad_wrapper L optim w;
            x0 = flatten (ctrl_amps L dyn w)
        in then_do (call (Fn ''check_grad'') [PRef func, PRef grad, PArr x0] [] PFloat
                      (check_grad L func grad x0)) (\<lambda>grad_diff.
           print_format ''Normalised grad diff: {}'' [PFloat grad_diff])) w))"

text \<open>Lines 164 to 177: the report.\<close>

definition report :: "'w lib \<Rightarrow> opt_result \<Rightarrow> ('w, unit) prog" where
  "report L result =
     then_do (print stars) (\<lambda>_.
     then_do (print (newline # ''Optimising complete. Stats follow:'')) (\<lambda>_.
     then_do (call (Method (stats result) ''report'') [] [] (\<lambda>_. PNone)
                (stats_report L (stats result))) (\<lambda>_.
     then_do (print_format (''Final evolution'' @ [newline] @ ''{}'' @ [newline])
                [PQobj (evo_full_final result)]) (\<lambda>_.
     then_do (print ''********* Summary *****************'') (\<lambda>_.
     then_do (print_format ''Final fidelity error {}'' [PFloat (fid_err result)]) (\<lambda>_.
     then_do (print_format ''Terminated due to {}'' [PStr (termination_reason result)]) (\<lambda>_.
     then_do (print_format ''Number of iterations {}'' [PInt (num_iter result)]) (\<lambda>_.
     then_do (call (Fn ''datetime.timedelta'') [] [(''seconds'', PFloat (wall_time result))] PRef
                (timedelta L [(''seconds'', PFloat (wall_time result))])) (\<lambda>td.
     then_do (print_format ''Completed in {} HH:MM:SS.US'' [PRef td]) (\<lambda>_.
     print stars))))))))))"

text \<open>Lines 186 to 188 and 193 to 195: one curve per control.\<close>

fun plot_columns ::
  "'w lib \<Rightarrow> ref \<Rightarrow> real list \<Rightarrow> array2 \<Rightarrow> nat list \<Rightarrow> ('w, unit) prog" where
  "plot_columns L ax t a [] = ret ()"
| "plot_columns L ax t a (j # js) =
     then_do (numpy ''getitem'' PArr (get_column a j)) (\<lambda>amps.
     then_do (call (Method ax ''plot'') [PArr t, PArr amps] [] (\<lambda>_. PNone)
                (axes_plot L ax t amps)) (\<lambda>_.
     plot_columns L ax t a js))"

definition axes_call :: "'w lib \<Rightarrow> ref \<Rightarrow> string \<Rightarrow> string \<Rightarrow> ('w, unit) prog" where
  "axes_call L ax name s = call (Method ax name) [PStr s] [] (\<lambda>_. PNone) (axes_set L ax name s)"

definition subplot :: "'w lib \<Rightarrow> ref \<Rightarrow> int \<Rightarrow> ('w, ref) prog" where
  "subplot L fig k =
     call (Method fig ''add_subplot'') [PInt 2, PInt 1, PInt k] [] PRef
       (add_subplot L fig [PInt 2, PInt 1, PInt k])"

text \<open>Lines 180 to 197: the two panels.\<close>

definition plot_results :: "config \<Rightarrow> model \<Rightarrow> 'w lib \<Rightarrow> opt_result \<Rightarrow> ('w, unit) prog" where
  "plot_results cfg m L result =
     then_do (call (Fn ''plt.figure'') [] [] PRef (plt_figure L)) (\<lambda>fig1.
     then_do (subplot L fig1 1) (\<lambda>ax1.
     then_do (axes_call L ax1 ''set_title'' ''Initial ctrl amps'') (\<lambda>_.
     then_do (axes_call L ax1 ''set_xlabel'' ''Time'') (\<lambda>_.
     then_do (axes_call L ax1 ''set_ylabel'' ''Control amplitude'') (\<lambda>_.
     let t = slice_to (time result) (n_ts cfg) in
     then_do (plot_columns L ax1 t (initial_amps result) [0..<n_ctrls m]) (\<lambda>_.
     then_do (subplot L fig1 2) (\<lambda>ax2.
     then_do (axes_call L ax2 ''set_title'' ''Optimised Control Sequences'') (\<lambda>_.
     then_do (axes_call L ax2 ''set_xlabel'' ''Time'') (\<lambda>_.
     then_do (axes_call L ax2 ''set_ylabel'' ''Control amplitude'') (\<lambda>_.
     then_do (plot_columns L ax2 t (final_amps result) [0..<n_ctrls m]) (\<lambda>_.
     call (Fn ''plt.show'') [] [] (\<lambda>_. PNone) (plt_show L))))))))))))"

text \<open>Lines 157 to 197: the optimisation run and everything after it.\<close>

definition optimise :: "config \<Rightarrow> model \<Rightarrow> 'w lib \<Rightarrow> ref \<Rightarrow> ('w, unit) prog" where
  "optimise cfg m L optim =
     then_do (print stars) (\<lambda>_.
     then_do (print ''Starting pulse optimisation'') (\<lambda>_.
     then_do (call (Method optim ''run_optimization'') [] [] PResult
                (run_optimization L optim [] [])) (\<lambda>result.
     then_do (report L result) (\<lambda>_.
     plot_results cfg m L result))))"

text \<open>Lines 142 to 146: the initial amplitudes go to a file.\<close>

definition save_initial :: "config \<Rightarrow> string \<Rightarrow> 'w lib \<Rightarrow> ref \<Rightarrow> ('w, unit) prog" where
  "save_initial cfg fext L dyn =
     then_do (call (Method dyn ''save_amps'') [PStr (pulsefile fext)] [] (\<lambda>_. PNone)
                (save_amps L dyn (pulsefile fext))) (\<lambda>_.
     if log_level cfg \<le> logging_INFO
     then print (''Initial amplitudes output to file: '' @ pulsefile fext)
     else ret ())"

text \<open>Lines 134 to 197, once the optimiser exists.\<close>

definition with_optimizer :: "config \<Rightarrow> model \<Rightarrow> string \<Rightarrow> 'w lib \<Rightarrow> ref \<Rightarrow> ('w, unit) prog" where
  "with_optimizer cfg m fext L optim w =
     (let dyn = dynamics L optim w;
          p_gen = pulse_generator L optim w
      in then_do (gen_init_amps cfg m L p_gen) (\<lambda>init_amps.
         then_do (call (Method dyn ''initialize_controls'') [PArr2 init_amps] [] (\<lambda>_. PNone)
                    (initialize_controls L dyn init_amps)) (\<lambda>_.
         then_do (save_initial cfg fext L dyn) (\<lambda>_.
         then_do (if check_gradient cfg then gradient_check L optim dyn else ret ()) (\<lambda>_.
         optimise cfg m L optim))))) w"

definition body :: "config \<Rightarrow> model \<Rightarrow> string \<Rightarrow> 'w lib \<Rightarrow> ('w, unit) prog" where
  "body cfg m fext L =
     then_do (print (newline # stars)) (\<lambda>_.
     then_do (print ''Starting pulse optimisation'') (\<lambda>_.
     then_do (create_optimizer cfg m L) (\<lambda>optim.
     with_optimizer cfg m fext L optim)))"

text \<open>
  The same statements cut in two at the call of \<^verbatim>\<open>save_amps\<close>: lines 113 to 144 as a
  program that returns the optimiser and its dynamics object, and lines 145 to 197 as a
  program that takes them. Run one after the other they are the body.
\<close>

definition upto_save :: "config \<Rightarrow> model \<Rightarrow> string \<Rightarrow> 'w lib \<Rightarrow> ('w, ref \<times> ref) prog" where
  "upto_save cfg m fext L =
     then_do (print (newline # stars)) (\<lambda>_.
     then_do (print ''Starting pulse optimisation'') (\<lambda>_.
     then_do (create_optimizer cfg m L) (\<lambda>optim w.
       (let dyn = dynamics L optim w;
            p_gen = pulse_generator L optim w
        in then_do (gen_init_amps cfg m L p_gen) (\<lambda>init_amps.
           then_do (call (Method dyn ''initialize_controls'') [PArr2 init_amps] [] (\<lambda>_. PNone)
                      (initialize_controls L dyn init_amps)) (\<lambda>_.
           then_do (call (Method dyn ''save_amps'') [PStr (pulsefile fext)] [] (\<lambda>_. PNone)
                      (save_amps L dyn (pulsefile fext))) (\<lambda>_.
           ret (optim, dyn))))) w)))"

definition after_save :: "config \<Rightarrow> model \<Rightarrow> string \<Rightarrow> 'w lib \<Rightarrow> ref \<times> ref \<Rightarrow> ('w, unit) prog" where
  "after_save cfg m fext L od =
     then_do (if log_level cfg \<le> logging_INFO
              then print (''Initial amplitudes output to file: '' @ pulsefile fext)
              else ret ()) (\<lambda>_.
     then_do (if check_gradient cfg then gradient_check L (fst od) (snd od) else ret ()) (\<lambda>_.
     optimise cfg m L (fst od)))"

text \<open>
  The whole module with the parameters as arguments: the assignments of lines 42 to 111, where
  an exception would end the module before any action, then the rest.
\<close>

definition script :: "config \<Rightarrow> 'w lib \<Rightarrow> ('w, unit) prog" where
  "script cfg L w =
     (case bind_e (physics (gamma cfg)) (\<lambda>m. bind_e (f_ext cfg) (\<lambda>fext. Inr (m, fext))) of
        Inl e \<Rightarrow> ([], Inl e, w)
      | Inr (m, fext) \<Rightarrow> body cfg m fext L w)"

text \<open>The module as it is in the repository.\<close>

definition main :: "'w lib \<Rightarrow> ('w, unit) prog" where
  "main = script script_config"

section \<open>Observations on runs\<close>

text \<open>The name of the function or method an action calls, if it is a call.\<close>

fun callee_name :: "action \<Rightarrow> string option" where
  "callee_name (Call (Fn n) args kw) = Some n"
| "callee_name (Call (Method r n) args kw) = Some n"
| "callee_name (Print s) = None"
| "callee_name (Print_format s args) = None"
| "callee_name (Numpy n) = None"

definition calls_named :: "string \<Rightarrow> entry list \<Rightarrow> action list" where
  "calls_named n t = filter (\<lambda>a. callee_name a = Some n) (map fst t)"

fun is_returned :: "outcome \<Rightarrow> bool" where
  "is_returned (Returned v) = True"
| "is_returned (Raised e) = False"

text \<open>No call in a statement's run has one of the given names.\<close>

definition avoids :: "string set \<Rightarrow> ('w, 'a) prog \<Rightarrow> bool" where
  "avoids S m = (\<forall>w. \<forall>en \<in> set (fst (m w)). callee_name (fst en) \<notin> Some ` S)"




section \<open>A small library to run the script on\<close>

text \<open>
  A library whose state is the set of files written and the amplitudes the dynamics object
  holds. Every operation succeeds; the pulse generator returns a ramp of ten values.
\<close>

record world =
  files :: "(string \<times> array2) list"
  held_amps :: array2

definition demo_result :: "world \<Rightarrow> opt_result" where
  "demo_result w =
     \<lparr>stats = 6, evo_full_final = identity 4, fid_err = 0, termination_reason = ''Goal achieved'',
      num_iter = 1, wall_time = 1, time = [0, 1, 2, 3, 4, 5, 6, 7, 8, 9, 10],
      initial_amps = held_amps w, final_amps = held_amps w\<rparr>"

definition demo_lib :: "world lib" where
  "demo_lib =
     \<lparr>create_pulse_optimizer = (\<lambda>args kw w. (Inr 1, w)),
      dynamics = (\<lambda>r w. 2),
      pulse_generator = (\<lambda>r w. 3),
      fid_err_func_wrapper = (\<lambda>r w. 4),
      fid_err_grad_wrapper = (\<lambda>r w. 5),
      ctrl_amps = (\<lambda>r w. held_amps w),
      gen_pulse = (\<lambda>r w. (Inr [0, 1, 2, 3, 4, 5, 6, 7, 8, 9], w)),
      initialize_controls = (\<lambda>r a w. (Inr (), w\<lparr>held_amps := a\<rparr>)),
      save_amps = (\<lambda>r f w. (Inr (), w\<lparr>files := (f, held_amps w) # files w\<rparr>)),
      check_grad = (\<lambda>f g x w. (Inr 0, w)),
      run_optimization = (\<lambda>r args kw w. (Inr (demo_result w), w)),
      stats_report = (\<lambda>r w. (Inr (), w)),
      timedelta = (\<lambda>kw w. (Inr 7, w)),
      plt_figure = (\<lambda>w. (Inr 8, w)),
      add_subplot = (\<lambda>r args w. (Inr 9, w)),
      axes_set = (\<lambda>r n s w. (Inr (), w)),
      axes_plot = (\<lambda>r t a w. (Inr (), w)),
      plt_show = (\<lambda>w. (Inr (), w))\<rparr>"

definition world0 :: world where
  "world0 = \<lparr>files = [], held_amps = \<lparr>nrows = 0, ncols = 0, rows = []\<rparr>\<rparr>"

text \<open>
  A run invokes \<^verbatim>\<open>run_optimization\<close> once, on the handle \<open>optim\<close> and with no argument, or
  it never does and has ended with an exception.
\<close>

definition runs_optimizer :: "ref \<Rightarrow> entry list \<Rightarrow> exn + 'a \<Rightarrow> bool" where
  "runs_optimizer optim t outc =
     ((calls_named ''run_optimization'' t = [] \<and> (\<exists>e. outc = Inl e)) \<or>
      (\<exists>mid o' post.
         t = mid @ [(Call (Method optim ''run_optimization'') [] [], o')] @ post \<and>
         calls_named ''run_optimization'' mid = [] \<and>
         calls_named ''run_optimization'' post = []))"

text \<open>
  Nothing is caught: a run that ends with an exception ends right after the action that raised
  it, with that very exception, and no earlier action raised; a run that ends normally has no
  action that raised.
\<close>

definition uncaught :: "entry list \<times> (exn + 'a) \<times> 'w \<Rightarrow> bool" where
  "uncaught r =
     (case fst (snd r) of
        Inl e \<Rightarrow>
          fst r \<noteq> [] \<and> snd (last (fst r)) = Raised e \<and>
          list_all (\<lambda>en. is_returned (snd en)) (butlast (fst r))
      | Inr x \<Rightarrow> list_all (\<lambda>en. is_returned (snd en)) (fst r))"

text \<open>
  Reading a run from the left and remembering whether a \<^verbatim>\<open>save_amps\<close> call has returned:
  every call of \<^verbatim>\<open>check_grad\<close> and of \<^verbatim>\<open>run_optimization\<close> comes after one.
\<close>

fun saved_first :: "bool \<Rightarrow> entry list \<Rightarrow> bool" where
  "saved_first saved [] = True"
| "saved_first saved (en # t) =
     (if callee_name (fst en) = Some ''save_amps''
      then saved_first (saved \<or> is_returned (snd en)) t
      else if callee_name (fst en) = Some ''check_grad'' \<or>
              callee_name (fst en) = Some ''run_optimization''
      then saved \<and> saved_first saved t
      else saved_first saved t)"

text \<open>A run that an exception ended, raised by a call with one of the given names.\<close>

definition ended_by :: "string set \<Rightarrow> entry list \<times> (exn + 'a) \<times> 'w \<Rightarrow> bool" where
  "ended_by N r =
     ((\<exists>e. fst (snd r) = Inl e) \<and> fst r \<noteq> [] \<and> callee_name (fst (last (fst r))) \<in> Some ` N)"

text \<open>Two libraries that fail: in the gradient check, and when the plot is shown.\<close>

definition lib_check_grad_fails :: "world lib" where
  "lib_check_grad_fails =
     demo_lib\<lparr>check_grad := (\<lambda>f g x w. (Inl (LibraryError ''FloatingPointError''), w))\<rparr>"

definition lib_show_fails :: "world lib" where
  "lib_show_fails = demo_lib\<lparr>plt_show := (\<lambda>w. (Inl (LibraryError ''RuntimeError''), w))\<rparr>"

text \<open>
  A library whose \<^verbatim>\<open>save_amps\<close> returns without having written anything (the file could
  not be opened, and the failure was only logged), and whose gradient check then fails.
\<close>

definition lib_nothing_saved :: "world lib" where
  "lib_nothing_saved = lib_check_grad_fails\<lparr>save_amps := (\<lambda>r f w. (Inr (), w))\<rparr>"

text \<open>A library whose gradient check removes every file before it fails.\<close>

definition lib_check_grad_cleans :: "world lib" where
  "lib_check_grad_cleans =
     demo_lib\<lparr>check_grad :=
       (\<lambda>f g x w. (Inl (LibraryError ''FloatingPointError''), w\<lparr>files := []\<rparr>))\<rparr>"

text \<open>
  The pulses the generator returned in a run, in order, and the arrays the run passed to
  \<^verbatim>\<open>initialize_controls\<close>.
\<close>

definition pulse_of :: "entry \<Rightarrow> real list list" where
  "pulse_of en =
     (case en of
        (Call (Method r n) args kw, Returned (PArr v)) \<Rightarrow> if n = ''gen_pulse'' then [v] else []
      | _ \<Rightarrow> [])"

definition pulses_returned :: "entry list \<Rightarrow> real list list" where
  "pulses_returned t = concat (map pulse_of t)"

definition init_arg_of :: "entry \<Rightarrow> array2 list" where
  "init_arg_of en =
     (case fst en of
        Call (Method r n) [PArr2 a] kw \<Rightarrow> if n = ''initialize_controls'' then [a] else []
      | _ \<Rightarrow> [])"

definition initialized_with :: "entry list \<Rightarrow> array2 list" where
  "initialized_with t = concat (map init_arg_of t)"

text \<open>
  Every array a run passes to \<^verbatim>\<open>initialize_controls\<close> has shape \<open>(T, N)\<close>, is rectangular,
  and its columns \<open>0, \<dots>, N - 1\<close> are, in order, the pulses the generator returned in that
  run (a pulse of length one broadcast over the column): so there are exactly \<open>N\<close> pulses, and
  column \<open>j\<close> is determined by pulse \<open>j\<close> alone.
\<close>

definition columns_are_pulses :: "nat \<Rightarrow> nat \<Rightarrow> entry list \<Rightarrow> bool" where
  "columns_are_pulses T N t =
     list_all
       (\<lambda>a. shape a = (T, N) \<and> wf_array2 a \<and>
            map (get_column a) [0..<N] = map (\<lambda>v. Inr (broadcast T v)) (pulses_returned t))
       (initialized_with t)"





section \<open>Rounding\<close>

lemma round_half_even_int [simp]: "round_half_even (of_int n) = n"
  by (simp add: round_half_even_def)


lemma ulp_exp_eq:
  assumes "2 powi k \<le> \<bar>x\<bar>" "\<bar>x\<bar> < 2 powi (k + 1)" "- 1022 \<le> k"
  shows "ulp_exp x = k - 52"
proof -
  have "0 < (2 :: real) powi k"
    by simp
  with assms(1) have pos: "0 < \<bar>x\<bar>"
    by linarith
  have "\<lfloor>log 2 \<bar>x\<bar>\<rfloor> = k"
  proof (rule floor_unique)
    show "of_int k \<le> log 2 \<bar>x\<bar>"
      using assms(1) pos by (simp add: le_log_iff powr_real_of_int')
    have p: "2 powr real_of_int (k + 1) = (2 :: real) powi (k + 1)"
      by (rule powr_real_of_int') simp_all
    have "log 2 \<bar>x\<bar> < real_of_int (k + 1) \<longleftrightarrow> \<bar>x\<bar> < 2 powr real_of_int (k + 1)"
      by (rule log_less_iff) (use pos in simp_all)
    with assms(2) have "log 2 \<bar>x\<bar> < real_of_int (k + 1)"
      unfolding p by blast
    then show "log 2 \<bar>x\<bar> < of_int k + 1"
      by simp
  qed
  with assms(3) show ?thesis
    by (simp add: ulp_exp_def)
qed

lemma fl_eval:
  assumes "2 powi k \<le> \<bar>x\<bar>" "\<bar>x\<bar> < 2 powi (k + 1)" "- 1022 \<le> k"
  shows "fl x = of_int (round_half_even (x / 2 powi (k - 52))) * 2 powi (k - 52)"
proof -
  have "0 < (2 :: real) powi k"
    by simp
  with assms(1) have "0 < \<bar>x\<bar>"
    by linarith
  then have "x \<noteq> 0"
    by simp
  then show ?thesis
    by (simp add: fl_def ulp_exp_eq [OF assms])
qed

lemma fl_0 [simp]: "fl 0 = 0"
  by (simp add: fl_def)

lemma round_half_even_numeral [simp]:
  "round_half_even (numeral v) = numeral v" "round_half_even (- numeral v) = - numeral v"
  using round_half_even_int [of "numeral v"] round_half_even_int [of "- numeral v"]
  by simp_all

lemma fl_1 [simp]: "fl 1 = 1"
  using fl_eval [of 0 1] by (simp add: power_int_minus)

lemma fl_m1 [simp]: "fl (- 1) = - 1"
  using fl_eval [of 0 "- 1"] by (simp add: power_int_minus)

lemma fl_2 [simp]: "fl 2 = 2"
  using fl_eval [of 1 2] by (simp add: power_int_minus)

lemma fl_m2 [simp]: "fl (- 2) = - 2"
  using fl_eval [of 1 "- 2"] by (simp add: power_int_minus)





lemma fl_product [simp]:
  "fl (4503599627370495 / 9007199254740992) = 4503599627370495 / 9007199254740992"
  "fl (- (4503599627370495 / 9007199254740992)) = - (4503599627370495 / 9007199254740992)"
  using fl_eval [of "- 2" "4503599627370495 / 9007199254740992"]
    fl_eval [of "- 2" "- (4503599627370495 / 9007199254740992)"]
  by (simp_all add: power_int_minus)

section \<open>The model-building statements never raise\<close>

lemmas qobj_defs = qsub_def qadd_def qneg_def tensor_def Sx_def Sy_def Sz_def Si_def Sd_def Sm_def
  Sd_m_def sigmax_def sigmay_def sigmaz_def identity_def kron_def smul_def mat_shape_def bind_e_def
  qtrans_def Qobj_def upt_rec cmul_def cadd_def

lemma L0_Ad_value:
  "L0_Ad g = Inr \<lparr>data = [[complex_of_real (fl (fl (- (g * 2)))), 0, 0, 0],
                          [0, complex_of_real (fl (fl (- g))), 0, 0],
                          [0, 0, complex_of_real (fl (fl (- g))), 0],
                          [complex_of_real (fl (fl (g * 2))), 0, 0, 0]],
                  dims = ([2, 2], [2, 2])\<rparr>"
  by (simp add: L0_Ad_def qobj_defs complex_eq_iff)

lemma LC_x_value:
  "LC_x = Inr \<lparr>data = [[0, \<i>, - \<i>, 0], [\<i>, 0, 0, - \<i>], [- \<i>, 0, 0, \<i>], [0, - \<i>, \<i>, 0]],
               dims = ([2, 2], [2, 2])\<rparr>"
  by (simp add: LC_x_def qobj_defs complex_eq_iff)

lemma LC_y_value:
  "LC_y = Inr \<lparr>data = [[0, - 1, - 1, 0], [1, 0, 0, - 1], [1, 0, 0, - 1], [0, 1, 1, 0]],
               dims = ([2, 2], [2, 2])\<rparr>"
  by (simp add: LC_y_def qobj_defs complex_eq_iff)

lemma LC_z_value:
  "LC_z = Inr \<lparr>data = [[0, 0, 0, 0], [0, - (2 * \<i>), 0, 0], [0, 0, 2 * \<i>, 0], [0, 0, 0, 0]],
               dims = ([2, 2], [2, 2])\<rparr>"
  by (simp add: LC_z_def qobj_defs complex_eq_iff)

lemma f_ext_value:
  "f_ext cfg =
     Inr (example_name cfg @ ''_n_ts'' @ str_int (n_ts cfg) @ ''_ptype'' @ p_type cfg @ ''.txt'')"
  by (simp add: f_ext_def bind_e_def)

section \<open>Reasoning about runs\<close>

lemma then_do_raised: "m w = (t, Inl e, w') \<Longrightarrow> then_do m f w = (t, Inl e, w')"
  by (simp add: then_do_def)

lemma then_do_returned:
  "m w = (t, Inr x, w') \<Longrightarrow> then_do m f w = (t @ fst (f x w'), snd (f x w'))"
  by (simp add: then_do_def split: prod.splits)

lemma run_cases:
  obtains (raised) t e w' where "m w = (t, Inl e, w')"
  | (returned) t x w' where "m w = (t, Inr x, w')"
  by (metis prod_cases3 sum.exhaust)

lemma calls_named_append [simp]: "calls_named n (t @ u) = calls_named n t @ calls_named n u"
  by (simp add: calls_named_def)

lemma calls_named_Nil [simp]: "calls_named n [] = []"
  by (simp add: calls_named_def)

lemma calls_named_Cons:
  "calls_named n (en # t) =
     (if callee_name (fst en) = Some n then fst en # calls_named n t else calls_named n t)"
  by (simp add: calls_named_def)

subsection \<open>Which calls a statement can make\<close>

lemma avoidsD: "avoids S m \<Longrightarrow> n \<in> S \<Longrightarrow> calls_named n (fst (m w)) = []"
  by (auto simp: avoids_def calls_named_def filter_empty_conv)

lemma avoids_ret [simp]: "avoids S (ret x)"
  by (simp add: avoids_def ret_def)

lemma avoids_print [simp]: "avoids S (print s)"
  by (simp add: avoids_def print_def)

lemma avoids_print_format [simp]: "avoids S (print_format s args)"
  by (simp add: avoids_def print_format_def)

lemma avoids_numpy [simp]: "avoids S (numpy n conv r)"
  by (simp add: avoids_def numpy_def split: sum.splits)

lemma avoids_call:
  "callee_name (Call c args kw) \<notin> Some ` S \<Longrightarrow> avoids S (call c args kw conv op)"
  by (auto simp: avoids_def call_def split: sum.splits prod.splits)

lemma avoids_then_do: "avoids S m \<Longrightarrow> (\<And>x. avoids S (f x)) \<Longrightarrow> avoids S (then_do m f)"
  unfolding avoids_def
proof (intro allI ballI)
  fix w en
  assume m: "\<forall>w. \<forall>en\<in>set (fst (m w)). callee_name (fst en) \<notin> Some ` S"
    and f: "\<And>x. \<forall>w. \<forall>en\<in>set (fst (f x w)). callee_name (fst en) \<notin> Some ` S"
    and en: "en \<in> set (fst (then_do m f w))"
  show "callee_name (fst en) \<notin> Some ` S"
  proof (cases rule: run_cases [of m w])
    case (raised t e w')
    with en m [rule_format, of en w] show ?thesis
      by (simp add: then_do_raised)
  next
    case (returned t x w')
    with en m [rule_format, of en w] f [of x, rule_format, of en w'] show ?thesis
      by (auto simp: then_do_returned)
  qed
qed

lemma avoids_fill_columns: "''gen_pulse'' \<notin> S \<Longrightarrow> avoids S (fill_columns L p js a)"
  by (induction js arbitrary: a) (auto intro!: avoids_then_do avoids_call)

lemma avoids_plot_columns: "''plot'' \<notin> S \<Longrightarrow> avoids S (plot_columns L ax t a js)"
  by (induction js) (auto intro!: avoids_then_do avoids_call)

lemma avoids_report: "''report'' \<notin> S \<Longrightarrow> ''datetime.timedelta'' \<notin> S \<Longrightarrow> avoids S (report L r)"
  unfolding report_def
  by (intro avoids_then_do avoids_call avoids_print avoids_print_format) auto

lemma avoids_plot_results:
  "''plt.figure'' \<notin> S \<Longrightarrow> ''add_subplot'' \<notin> S \<Longrightarrow> ''set_title'' \<notin> S \<Longrightarrow>
   ''set_xlabel'' \<notin> S \<Longrightarrow> ''set_ylabel'' \<notin> S \<Longrightarrow> ''plot'' \<notin> S \<Longrightarrow> ''plt.show'' \<notin> S \<Longrightarrow>
   avoids S (plot_results cfg m L r)"
  unfolding plot_results_def Let_def axes_call_def subplot_def
  by (intro avoids_then_do avoids_call avoids_plot_columns) auto

lemma avoids_gen_init_amps: "''gen_pulse'' \<notin> S \<Longrightarrow> avoids S (gen_init_amps cfg m L p)"
  unfolding gen_init_amps_def
  by (intro avoids_then_do avoids_numpy avoids_fill_columns)

lemma avoids_save_initial: "''save_amps'' \<notin> S \<Longrightarrow> avoids S (save_initial cfg fext L dyn)"
  unfolding save_initial_def
  by (intro avoids_then_do avoids_call) auto

lemma avoids_gradient_check: "''check_grad'' \<notin> S \<Longrightarrow> avoids S (gradient_check L optim dyn)"
proof -
  assume n: "''check_grad'' \<notin> S"
  have c: "avoids S
      (then_do (call (Fn ''check_grad'') [PRef func, PRef grad, PArr x0] [] PFloat
                  (check_grad L func grad x0))
         (\<lambda>grad_diff. print_format ''Normalised grad diff: {}'' [PFloat grad_diff]))"
    for func grad x0
    using n by (intro avoids_then_do avoids_call avoids_print_format) auto
  have "avoids S (\<lambda>w.
      (let func = fid_err_func_wrapper L optim w;
           grad = fid_err_grad_wrapper L optim w;
           x0 = flatten (ctrl_amps L dyn w)
       in then_do (call (Fn ''check_grad'') [PRef func, PRef grad, PArr x0] [] PFloat
                     (check_grad L func grad x0))
            (\<lambda>grad_diff. print_format ''Normalised grad diff: {}'' [PFloat grad_diff])) w)"
    using c by (simp add: avoids_def Let_def)
  then show ?thesis
    unfolding gradient_check_def
    by (intro avoids_then_do avoids_print)
qed

lemma avoids_after_run:
  "''report'' \<notin> S \<Longrightarrow> ''datetime.timedelta'' \<notin> S \<Longrightarrow>
   ''plt.figure'' \<notin> S \<Longrightarrow> ''add_subplot'' \<notin> S \<Longrightarrow> ''set_title'' \<notin> S \<Longrightarrow>
   ''set_xlabel'' \<notin> S \<Longrightarrow> ''set_ylabel'' \<notin> S \<Longrightarrow> ''plot'' \<notin> S \<Longrightarrow> ''plt.show'' \<notin> S \<Longrightarrow>
   avoids S (then_do (report L r) (\<lambda>_. plot_results cfg m L r))"
  by (intro avoids_then_do avoids_report avoids_plot_results)

lemma avoids_optimise:
  "''run_optimization'' \<notin> S \<Longrightarrow> ''report'' \<notin> S \<Longrightarrow> ''datetime.timedelta'' \<notin> S \<Longrightarrow>
   ''plt.figure'' \<notin> S \<Longrightarrow> ''add_subplot'' \<notin> S \<Longrightarrow> ''set_title'' \<notin> S \<Longrightarrow>
   ''set_xlabel'' \<notin> S \<Longrightarrow> ''set_ylabel'' \<notin> S \<Longrightarrow> ''plot'' \<notin> S \<Longrightarrow> ''plt.show'' \<notin> S \<Longrightarrow>
   avoids S (optimise cfg m L optim)"
  unfolding optimise_def
  by (intro avoids_then_do avoids_print avoids_call avoids_after_run) auto

lemma avoids_with_optimizer:
  assumes "''gen_pulse'' \<notin> S" "''initialize_controls'' \<notin> S" "''save_amps'' \<notin> S"
    "''check_grad'' \<notin> S" "''run_optimization'' \<notin> S" "''report'' \<notin> S"
    "''datetime.timedelta'' \<notin> S" "''plt.figure'' \<notin> S" "''add_subplot'' \<notin> S"
    "''set_title'' \<notin> S" "''set_xlabel'' \<notin> S" "''set_ylabel'' \<notin> S" "''plot'' \<notin> S"
    "''plt.show'' \<notin> S"
  shows "avoids S (with_optimizer cfg m fext L optim)"
proof -
  have g: "avoids S (if check_gradient cfg then gradient_check L optim dyn else ret ())" for dyn
    using assms by (simp add: avoids_gradient_check)
  have "avoids S
      (then_do (gen_init_amps cfg m L p_gen) (\<lambda>init_amps.
       then_do (call (Method dyn ''initialize_controls'') [PArr2 init_amps] [] (\<lambda>_. PNone)
                  (initialize_controls L dyn init_amps)) (\<lambda>_.
       then_do (save_initial cfg fext L dyn) (\<lambda>_.
       then_do (if check_gradient cfg then gradient_check L optim dyn else ret ()) (\<lambda>_.
       optimise cfg m L optim)))))" for dyn p_gen
    using assms
    by (intro avoids_then_do avoids_gen_init_amps avoids_call avoids_save_initial g
        avoids_optimise) auto
  then show ?thesis
    by (simp add: avoids_def with_optimizer_def Let_def)
qed

lemma no_factory_with_optimizer:
  "calls_named ''cpo.create_pulse_optimizer'' (fst (with_optimizer cfg m fext L optim w)) = []"
  by (rule avoidsD [of "{''cpo.create_pulse_optimizer''}"]) (simp_all add: avoids_with_optimizer)

section \<open>The module up to line 111\<close>

lemma physics_value:
  "physics g =
     Inr \<lparr>v_L0_Ad = projr (L0_Ad g), v_LC_x = projr LC_x, v_LC_y = projr LC_y, v_LC_z = projr LC_z,
          drift = projr (L0_Ad g), ctrls = [projr LC_z, projr LC_x], n_ctrls = 2,
          initial = identity 4, had_gate = hadamard_1,
          target_DP = tensor hadamard_1 hadamard_1\<rparr>"
  by (simp add: physics_def L0_Ad_value LC_x_value LC_y_value LC_z_value bind_e_def Let_def)

lemma script_body:
  "script cfg L w = body cfg (projr (physics (gamma cfg))) (projr (f_ext cfg)) L w"
  by (simp add: script_def physics_value f_ext_value bind_e_def)


section \<open>The target operator\<close>















section \<open>The control generators\<close>


section \<open>The name of the amplitude file\<close>

lemma cn_then_do:
  "calls_named n (fst (then_do m f w)) =
     calls_named n (fst (m w)) @
     (case fst (snd (m w)) of Inl e \<Rightarrow> [] | Inr x \<Rightarrow> calls_named n (fst (f x (snd (snd (m w))))))"
  by (cases rule: run_cases [of m w]) (simp_all add: then_do_raised then_do_returned)

lemma cn_basic [simp]:
  "calls_named n (fst (ret x w)) = []"
  "calls_named n (fst (print s w)) = []"
  "calls_named n (fst (print_format s args w)) = []"
  "calls_named n (fst (numpy nm conv r w)) = []"
  by (simp_all add: ret_def print_def print_format_def numpy_def calls_named_def split: sum.splits)

lemma cn_call:
  "calls_named n (fst (call c args kw conv op w)) =
     (if callee_name (Call c args kw) = Some n then [Call c args kw] else [])"
  by (simp add: call_def calls_named_def split: prod.splits sum.splits)

lemma cn_fill_columns:
  "''gen_pulse'' \<noteq> n \<Longrightarrow> calls_named n (fst (fill_columns L p js a w)) = []"
  by (rule avoidsD [of "{n}"]) (simp_all add: avoids_fill_columns)

lemma cn_plot_columns:
  "''plot'' \<noteq> n \<Longrightarrow> calls_named n (fst (plot_columns L ax t a js w)) = []"
  by (rule avoidsD [of "{n}"]) (simp_all add: avoids_plot_columns)

lemma cn_report:
  "''report'' \<noteq> n \<Longrightarrow> ''datetime.timedelta'' \<noteq> n \<Longrightarrow> calls_named n (fst (report L r w)) = []"
  by (rule avoidsD [of "{n}"]) (simp_all add: avoids_report)

lemma cn_plot_results:
  "''plt.figure'' \<noteq> n \<Longrightarrow> ''add_subplot'' \<noteq> n \<Longrightarrow> ''set_title'' \<noteq> n \<Longrightarrow>
   ''set_xlabel'' \<noteq> n \<Longrightarrow> ''set_ylabel'' \<noteq> n \<Longrightarrow> ''plot'' \<noteq> n \<Longrightarrow> ''plt.show'' \<noteq> n \<Longrightarrow>
   calls_named n (fst (plot_results cfg m L r w)) = []"
  by (rule avoidsD [of "{n}"]) (simp_all add: avoids_plot_results)

lemmas cn_simps = cn_then_do cn_call cn_fill_columns cn_plot_columns cn_report cn_plot_results

lemma saves_optimise: "calls_named ''save_amps'' (fst (optimise cfg m L optim w)) = []"
  by (simp add: optimise_def cn_simps split: sum.splits)

lemma saves_gradient_check: "calls_named ''save_amps'' (fst (gradient_check L optim dyn w)) = []"
  by (simp add: gradient_check_def Let_def cn_simps split: sum.splits)

lemma saves_save_initial:
  "calls_named ''save_amps'' (fst (save_initial cfg fext L dyn w)) =
     [Call (Method dyn ''save_amps'') [PStr (pulsefile fext)] []]"
  by (simp add: save_initial_def cn_simps split: sum.splits)

lemma saves_gen_init_amps: "calls_named ''save_amps'' (fst (gen_init_amps cfg m L p w)) = []"
  by (simp add: gen_init_amps_def cn_simps split: sum.splits)

lemma saves_with_optimizer:
  "calls_named ''save_amps'' (fst (with_optimizer cfg m fext L optim w)) = [] \<or>
   (\<exists>dyn. calls_named ''save_amps'' (fst (with_optimizer cfg m fext L optim w)) =
      [Call (Method dyn ''save_amps'') [PStr (pulsefile fext)] []])"
  by (simp add: with_optimizer_def Let_def cn_then_do cn_call saves_optimise
      saves_gradient_check saves_save_initial saves_gen_init_amps split: sum.splits)

lemma saves_body:
  "calls_named ''save_amps'' (fst (body cfg m fext L w)) = [] \<or>
   (\<exists>dyn. calls_named ''save_amps'' (fst (body cfg m fext L w)) =
      [Call (Method dyn ''save_amps'') [PStr (pulsefile fext)] []])"
  using saves_with_optimizer [of cfg m fext L]
  by (simp add: body_def create_optimizer_def cn_then_do cn_call split: sum.splits)

text \<open>
  Claim C1, as amended. The string \<^verbatim>\<open>f_ext\<close> follows the pattern
  \<^verbatim>\<open>{example_name}_n_ts{n_ts}_ptype{p_type}.txt\<close>, but it is not the name of the file: the
  script saves the initial amplitudes at most once, and the name it passes to
  \<^verbatim>\<open>save_amps\<close> is \<^verbatim>\<open>ctrl_amps_initial_\<close> followed by \<^verbatim>\<open>f_ext\<close>. With the module's
  parameters \<^verbatim>\<open>f_ext\<close> is \<^verbatim>\<open>Lindblad_n_ts10_ptypeLIN.txt\<close> and the file is
  \<^verbatim>\<open>ctrl_amps_initial_Lindblad_n_ts10_ptypeLIN.txt\<close>.
\<close>

theorem saved_file_name:
  "f_ext cfg =
     Inr (example_name cfg @ ''_n_ts'' @ str_int (n_ts cfg) @ ''_ptype'' @ p_type cfg @ ''.txt'') \<and>
   (calls_named ''save_amps'' (fst (script cfg L w)) = [] \<or>
    (\<exists>dyn. calls_named ''save_amps'' (fst (script cfg L w)) =
       [Call (Method dyn ''save_amps'')
          [PStr (''ctrl_amps_initial_'' @ example_name cfg @ ''_n_ts'' @ str_int (n_ts cfg) @
                 ''_ptype'' @ p_type cfg @ ''.txt'')] []])) \<and>
   f_ext script_config = Inr ''Lindblad_n_ts10_ptypeLIN.txt'' \<and>
   (calls_named ''save_amps'' (fst (main L w)) = [] \<or>
    (\<exists>dyn. calls_named ''save_amps'' (fst (main L w)) =
       [Call (Method dyn ''save_amps'') [PStr ''ctrl_amps_initial_Lindblad_n_ts10_ptypeLIN.txt''] []]))"
proof -
  have g: "calls_named ''save_amps'' (fst (script c L w)) = [] \<or>
    (\<exists>dyn. calls_named ''save_amps'' (fst (script c L w)) =
       [Call (Method dyn ''save_amps'')
          [PStr (''ctrl_amps_initial_'' @ example_name c @ ''_n_ts'' @ str_int (n_ts c) @
                 ''_ptype'' @ p_type c @ ''.txt'')] []])" for c
    using saves_body [of c "projr (physics (gamma c))" "projr (f_ext c)" L w]
    by (simp add: script_body f_ext_value pulsefile_def)
  have n: "str_int 10 = ''10''"
    by (simp add: str_int_def digit_char_def)
  have s: "f_ext script_config = Inr ''Lindblad_n_ts10_ptypeLIN.txt''"
    by (simp add: f_ext_value script_config_def n)
  show ?thesis
    using g [of cfg] g [of script_config] s
    by (simp add: f_ext_value main_def) (simp add: script_config_def n)
qed

subsection \<open>Evaluating a run on the small library\<close>

lemmas run_defs = body_def with_optimizer_def create_optimizer_def gen_init_amps_def
  save_initial_def gradient_check_def optimise_def report_def plot_results_def axes_call_def
  subplot_def then_do_def call_def numpy_def print_def print_format_def ret_def Let_def

lemmas demo_defs = demo_lib_def world0_def script_config_def np_zeros_def set_column_def
  broadcast_def get_column_def demo_result_def logging_INFO_def upt_rec

text \<open>
  Claim C1 as stated fails: run on the small library, the module saves its amplitudes under
  the name \<^verbatim>\<open>ctrl_amps_initial_Lindblad_n_ts10_ptypeLIN.txt\<close>, which is not
  \<^verbatim>\<open>Lindblad_n_ts10_ptypeLIN.txt\<close>.
\<close>

theorem saved_file_name_counterexample:
  "calls_named ''save_amps'' (fst (main demo_lib world0)) =
     [Call (Method 2 ''save_amps'') [PStr ''ctrl_amps_initial_Lindblad_n_ts10_ptypeLIN.txt''] []] \<and>
   ''ctrl_amps_initial_Lindblad_n_ts10_ptypeLIN.txt'' \<noteq> ''Lindblad_n_ts10_ptypeLIN.txt''"
  by (simp add: main_def script_body physics_value f_ext_value run_defs demo_defs calls_named_def
      pulsefile_def str_int_def digit_char_def)

section \<open>The factory call and the optimisation run\<close>

lemma runs_optimizer_prefix:
  assumes m: "avoids {''run_optimization''} m"
    and f: "\<And>x w'. runs_optimizer optim (fst (f x w')) (fst (snd (f x w')))"
  shows "runs_optimizer optim (fst (then_do m f w)) (fst (snd (then_do m f w)))"
proof (cases rule: run_cases [of m w])
  case (raised t e w')
  with avoidsD [OF m, of "''run_optimization''" w] show ?thesis
    by (simp add: then_do_raised runs_optimizer_def)
next
  case (returned t x w')
  have t: "calls_named ''run_optimization'' t = []"
    using avoidsD [OF m, of "''run_optimization''" w] returned by simp
  have tr: "fst (then_do m f w) = t @ fst (f x w')"
    and oc: "fst (snd (then_do m f w)) = fst (snd (f x w'))"
    using then_do_returned [where m = m and w = w and f = f, OF returned] by simp_all
  from f [of x w'] consider
    (never) e where "calls_named ''run_optimization'' (fst (f x w')) = []"
      "fst (snd (f x w')) = Inl e"
    | (once) mid o' post where
      "fst (f x w') = mid @ [(Call (Method optim ''run_optimization'') [] [], o')] @ post"
      "calls_named ''run_optimization'' mid = []" "calls_named ''run_optimization'' post = []"
    unfolding runs_optimizer_def by blast
  then show ?thesis
  proof cases
    case never
    with t show ?thesis
      unfolding runs_optimizer_def tr oc by simp
  next
    case once
    have "t @ fst (f x w') =
        (t @ mid) @ [(Call (Method optim ''run_optimization'') [] [], o')] @ post"
      using once by simp
    moreover have "calls_named ''run_optimization'' (t @ mid) = []"
      using t once by simp
    ultimately show ?thesis
      unfolding runs_optimizer_def tr oc using once(3) by blast
  qed
qed

lemma then_do_print:
  "then_do (print s) f w = ((Print s, Returned PNone) # fst (f () w), snd (f () w))"
  by (simp add: then_do_def print_def split: prod.splits)

lemma then_do_print_format:
  "then_do (print_format s args) f w =
     ((Print_format s args, Returned PNone) # fst (f () w), snd (f () w))"
  by (simp add: then_do_def print_format_def split: prod.splits)

lemma then_do_ret: "then_do (ret x) f w = f x w"
  by (simp add: then_do_def ret_def split: prod.splits)

lemma then_do_call_raised:
  "op w = (Inl e, w') \<Longrightarrow>
   then_do (call c args kw conv op) f w = ([(Call c args kw, Raised e)], Inl e, w')"
  by (simp add: then_do_def call_def)

lemma then_do_call_returned:
  "op w = (Inr x, w') \<Longrightarrow>
   then_do (call c args kw conv op) f w =
     ((Call c args kw, Returned (conv x)) # fst (f x w'), snd (f x w'))"
  by (simp add: then_do_def call_def split: prod.splits)

lemma ext_cases:
  obtains (raised) e w' where "op w = (Inl e, w')"
  | (returned) x w' where "op w = (Inr x, w')"
  by (metis surj_pair sum.exhaust)

lemma runs_optimizer_optimise:
  "runs_optimizer optim (fst (optimise cfg m L optim w)) (fst (snd (optimise cfg m L optim w)))"
proof (cases rule: ext_cases [of "run_optimization L optim [] []" w])
  case (raised e w')
  have "fst (optimise cfg m L optim w) =
      [(Print stars, Returned PNone), (Print ''Starting pulse optimisation'', Returned PNone)] @
      [(Call (Method optim ''run_optimization'') [] [], Raised e)] @ []"
    by (simp add: optimise_def then_do_print then_do_call_raised [where op = "run_optimization L optim [] []", OF raised])
  then show ?thesis
    unfolding runs_optimizer_def
    by (intro disjI2 exI conjI) (assumption, simp_all add: calls_named_Cons)
next
  case (returned result w')
  let ?post = "fst (then_do (report L result) (\<lambda>_. plot_results cfg m L result) w')"
  have r: "calls_named ''run_optimization'' ?post = []"
    by (rule avoidsD [of "{''run_optimization''}"])
      (simp_all add: avoids_after_run)
  have "fst (optimise cfg m L optim w) =
      [(Print stars, Returned PNone), (Print ''Starting pulse optimisation'', Returned PNone)] @
      [(Call (Method optim ''run_optimization'') [] [], Returned (PResult result))] @ ?post"
    by (simp add: optimise_def then_do_print then_do_call_returned [where op = "run_optimization L optim [] []", OF returned])
  then show ?thesis
    unfolding runs_optimizer_def
    by (intro disjI2 exI conjI) (assumption, simp_all add: calls_named_Cons r)
qed

lemma runs_optimizer_with_optimizer:
  "runs_optimizer optim (fst (with_optimizer cfg m fext L optim w))
     (fst (snd (with_optimizer cfg m fext L optim w)))"
proof -
  have g: "avoids {''run_optimization''}
      (if check_gradient cfg then gradient_check L optim dyn else ret ())" for dyn
    by (simp add: avoids_gradient_check)
  show ?thesis
    unfolding with_optimizer_def Let_def
    by (intro runs_optimizer_prefix runs_optimizer_optimise avoids_gen_init_amps avoids_call
        avoids_save_initial g) simp_all
qed

lemma factory_with_optimizer:
  "calls_named ''cpo.create_pulse_optimizer'' (fst (with_optimizer cfg m fext L optim w)) = []"
  by (rule avoidsD [of "{''cpo.create_pulse_optimizer''}"]) (simp_all add: avoids_with_optimizer)

lemma body_shape:
  "\<exists>outc rest.
     fst (body cfg m fext L w) =
       [(Print (newline # stars), Returned PNone),
        (Print ''Starting pulse optimisation'', Returned PNone),
        (Call (Fn ''cpo.create_pulse_optimizer'') (create_args cfg m) (create_kwargs cfg), outc)]
       @ rest \<and>
     calls_named ''cpo.create_pulse_optimizer'' rest = [] \<and>
     ((calls_named ''run_optimization'' rest = [] \<and> (\<exists>e. fst (snd (body cfg m fext L w)) = Inl e)) \<or>
      (\<exists>optim mid o' post.
         outc = Returned (PRef optim) \<and>
         rest = mid @ [(Call (Method optim ''run_optimization'') [] [], o')] @ post \<and>
         calls_named ''run_optimization'' mid = [] \<and>
         calls_named ''run_optimization'' post = []))"
proof (cases rule: ext_cases
    [of "create_pulse_optimizer L (create_args cfg m) (create_kwargs cfg)" w])
  case (raised e w')
  have "body cfg m fext L w =
      ([(Print (newline # stars), Returned PNone),
        (Print ''Starting pulse optimisation'', Returned PNone),
        (Call (Fn ''cpo.create_pulse_optimizer'') (create_args cfg m) (create_kwargs cfg),
         Raised e)] @ [], Inl e, w')"
    by (simp add: body_def create_optimizer_def then_do_print
        then_do_call_raised [where op = "create_pulse_optimizer L (create_args cfg m) (create_kwargs cfg)", OF raised])
  then show ?thesis
    by (intro exI conjI disjI1) (simp, simp_all)
next
  case (returned optim w')
  let ?rest = "with_optimizer cfg m fext L optim w'"
  have b: "body cfg m fext L w =
      ([(Print (newline # stars), Returned PNone),
        (Print ''Starting pulse optimisation'', Returned PNone),
        (Call (Fn ''cpo.create_pulse_optimizer'') (create_args cfg m) (create_kwargs cfg),
         Returned (PRef optim))] @ fst ?rest, snd ?rest)"
    by (simp add: body_def create_optimizer_def then_do_print
        then_do_call_returned [where op = "create_pulse_optimizer L (create_args cfg m) (create_kwargs cfg)", OF returned])
  have tr: "fst (body cfg m fext L w) =
      [(Print (newline # stars), Returned PNone),
        (Print ''Starting pulse optimisation'', Returned PNone),
        (Call (Fn ''cpo.create_pulse_optimizer'') (create_args cfg m) (create_kwargs cfg),
         Returned (PRef optim))] @ fst ?rest"
    and oc: "fst (snd (body cfg m fext L w)) = fst (snd ?rest)"
    by (simp_all add: b)
  note nf = factory_with_optimizer [of cfg m fext L optim w']
  from runs_optimizer_with_optimizer [of optim cfg m fext L w']
  have "(calls_named ''run_optimization'' (fst ?rest) = [] \<and>
         (\<exists>e. fst (snd (body cfg m fext L w)) = Inl e)) \<or>
      (\<exists>optim' mid o' post.
         Returned (PRef optim) = Returned (PRef optim') \<and>
         fst ?rest = mid @ [(Call (Method optim' ''run_optimization'') [] [], o')] @ post \<and>
         calls_named ''run_optimization'' mid = [] \<and>
         calls_named ''run_optimization'' post = [])"
    unfolding runs_optimizer_def oc by blast
  with tr nf show ?thesis
    by blast
qed

text \<open>
  Claim C3. In every run of the module the third action, after two console lines, is the call
  of the factory, with the drift, the list of controls, the initial operator, the target, the
  slot count 10 and the total time 5 as positional arguments and the seven keyword arguments
  \<^verbatim>\<open>fid_err_targ=1e-3\<close>, \<^verbatim>\<open>min_grad=1e-20\<close>, \<^verbatim>\<open>max_iter=500\<close>, \<^verbatim>\<open>max_wall_time=30\<close>,
  \<^verbatim>\<open>init_pulse_type='LIN'\<close>, \<^verbatim>\<open>log_level\<close>, \<^verbatim>\<open>gen_stats=True\<close>; the factory is not
  called again. Later the run invokes \<^verbatim>\<open>run_optimization\<close> exactly once, on the handle the
  factory returned, with no positional and no keyword argument; the only runs that never
  invoke it are those an exception has ended before.
\<close>

theorem factory_called_once_then_run:
  "\<exists>m outc rest.
     physics (1 / 10) = Inr m \<and>
     fst (main L w) =
       [(Print (newline # stars), Returned PNone),
        (Print ''Starting pulse optimisation'', Returned PNone),
        (Call (Fn ''cpo.create_pulse_optimizer'')
           [PQobj (drift m), PList (map PQobj (ctrls m)), PQobj (initial m), PQobj (target_DP m),
            PInt 10, PInt 5]
           [(''fid_err_targ'', PFloat (1 / 10 ^ 3)), (''min_grad'', PFloat (1 / 10 ^ 20)),
            (''max_iter'', PInt 500), (''max_wall_time'', PInt 30),
            (''init_pulse_type'', PStr ''LIN''), (''log_level'', PInt logging_INFO),
            (''gen_stats'', PBool True)],
         outc)] @ rest \<and>
     calls_named ''cpo.create_pulse_optimizer'' rest = [] \<and>
     ((calls_named ''run_optimization'' rest = [] \<and> (\<exists>e. fst (snd (main L w)) = Inl e)) \<or>
      (\<exists>optim mid o' post.
         outc = Returned (PRef optim) \<and>
         rest = mid @ [(Call (Method optim ''run_optimization'') [] [], o')] @ post \<and>
         calls_named ''run_optimization'' mid = [] \<and>
         calls_named ''run_optimization'' post = []))"
proof -
  define m where "m = projr (physics (1 / 10))"
  have p: "physics (1 / 10) = Inr m"
    by (simp add: m_def physics_value)
  have s: "main L w = body script_config m (projr (f_ext script_config)) L w"
    by (simp add: main_def script_body m_def script_config_def)
  have a: "create_args script_config m =
      [PQobj (drift m), PList (map PQobj (ctrls m)), PQobj (initial m), PQobj (target_DP m),
       PInt 10, PInt 5]"
    by (simp add: create_args_def script_config_def)
  have k: "create_kwargs script_config =
      [(''fid_err_targ'', PFloat (1 / 10 ^ 3)), (''min_grad'', PFloat (1 / 10 ^ 20)),
       (''max_iter'', PInt 500), (''max_wall_time'', PInt 30),
       (''init_pulse_type'', PStr ''LIN''), (''log_level'', PInt logging_INFO),
       (''gen_stats'', PBool True)]"
    by (simp add: create_kwargs_def script_config_def)
  show ?thesis
    using p body_shape [of script_config m "projr (f_ext script_config)" L w]
    unfolding s a k by blast
qed

section \<open>Exceptions\<close>

lemma uncaught_ret: "uncaught (ret x w)"
  by (simp add: uncaught_def ret_def)

lemma uncaught_print: "uncaught (print s w)"
  by (simp add: uncaught_def print_def)

lemma uncaught_print_format: "uncaught (print_format s args w)"
  by (simp add: uncaught_def print_format_def)

lemma uncaught_call: "uncaught (call c args kw conv op w)"
  by (simp add: uncaught_def call_def split: prod.splits sum.splits)

lemma uncaught_numpy: "uncaught (numpy n conv r w)"
  by (simp add: uncaught_def numpy_def split: sum.splits)

lemma uncaught_then_do:
  assumes m: "\<And>w. uncaught (m w)" and f: "\<And>x w. uncaught (f x w)"
  shows "uncaught (then_do m f w)"
proof (cases rule: run_cases [of m w])
  case (raised t e w')
  with m [of w] show ?thesis
    by (simp add: then_do_raised uncaught_def)
next
  case (returned t x w')
  have t: "list_all (\<lambda>en. is_returned (snd en)) t"
    using m [of w] returned by (simp add: uncaught_def)
  obtain t' r w'' where fx: "f x w' = (t', r, w'')"
    by (metis prod_cases3)
  have td: "then_do m f w = (t @ t', r, w'')"
    using then_do_returned [where m = m and w = w and f = f, OF returned] fx by simp
  show ?thesis
  proof (cases r)
    case (Inl e)
    with f [of x w'] fx have "t' \<noteq> []" "snd (last t') = Raised e"
      "list_all (\<lambda>en. is_returned (snd en)) (butlast t')"
      by (simp_all add: uncaught_def)
    with t Inl show ?thesis
      by (simp add: td uncaught_def butlast_append)
  next
    case (Inr y)
    with f [of x w'] fx t show ?thesis
      by (simp add: td uncaught_def)
  qed
qed

lemma uncaught_if: "uncaught (a w) \<Longrightarrow> uncaught (b w) \<Longrightarrow> uncaught ((if c then a else b) w)"
  by simp

lemmas uncaught_intros = uncaught_then_do uncaught_ret uncaught_print uncaught_print_format
  uncaught_call uncaught_numpy uncaught_if

lemma uncaught_fill_columns: "uncaught (fill_columns L p js a w)"
  by (induction js arbitrary: a w) (auto intro!: uncaught_intros)

lemma uncaught_plot_columns: "uncaught (plot_columns L ax t a js w)"
  by (induction js arbitrary: w) (auto intro!: uncaught_intros)

lemma uncaught_gradient_check: "uncaught (gradient_check L optim dyn w)"
  unfolding gradient_check_def Let_def
  by (intro uncaught_intros)

lemma uncaught_report: "uncaught (report L r w)"
  unfolding report_def
  by (intro uncaught_intros)

lemma uncaught_plot_results: "uncaught (plot_results cfg m L r w)"
  unfolding plot_results_def Let_def axes_call_def subplot_def
  by (intro uncaught_intros uncaught_plot_columns)

lemma uncaught_with_optimizer: "uncaught (with_optimizer cfg m fext L optim w)"
  unfolding with_optimizer_def Let_def gen_init_amps_def save_initial_def optimise_def
  by (intro uncaught_intros uncaught_fill_columns uncaught_gradient_check uncaught_report
      uncaught_plot_results)

lemma uncaught_body: "uncaught (body cfg m fext L w)"
  unfolding body_def create_optimizer_def
  by (intro uncaught_intros uncaught_with_optimizer)

text \<open>
  Claim C8. The script catches nothing. In every run, for every configuration and whatever
  the libraries do: if the run ends with an exception, that exception is the one raised by
  the last action of the run, and no action before it raised; if the run ends normally, no
  action raised. So an exception from a library or from NumPy always ends the run at once,
  unchanged, and nothing is retried or recovered.
\<close>

theorem exceptions_propagate: "uncaught (script cfg L w)"
proof -
  let ?m = "projr (physics (gamma cfg))" and ?fext = "projr (f_ext cfg)"
  have "script cfg L w = body cfg ?m ?fext L w"
    by (rule script_body)
  moreover have "uncaught (body cfg ?m ?fext L w)"
    by (rule uncaught_body)
  ultimately show ?thesis
    by simp
qed

lemma demo_fields [simp]:
  "create_pulse_optimizer demo_lib = (\<lambda>args kw w. (Inr 1, w))"
  "dynamics demo_lib = (\<lambda>r w. 2)"
  "pulse_generator demo_lib = (\<lambda>r w. 3)"
  "fid_err_func_wrapper demo_lib = (\<lambda>r w. 4)"
  "fid_err_grad_wrapper demo_lib = (\<lambda>r w. 5)"
  "ctrl_amps demo_lib = (\<lambda>r w. held_amps w)"
  "gen_pulse demo_lib = (\<lambda>r w. (Inr [0, 1, 2, 3, 4, 5, 6, 7, 8, 9], w))"
  "initialize_controls demo_lib = (\<lambda>r a w. (Inr (), w\<lparr>held_amps := a\<rparr>))"
  "save_amps demo_lib = (\<lambda>r f w. (Inr (), w\<lparr>files := (f, held_amps w) # files w\<rparr>))"
  "check_grad demo_lib = (\<lambda>f g x w. (Inr 0, w))"
  "run_optimization demo_lib = (\<lambda>r args kw w. (Inr (demo_result w), w))"
  "stats_report demo_lib = (\<lambda>r w. (Inr (), w))"
  "timedelta demo_lib = (\<lambda>kw w. (Inr 7, w))"
  "plt_figure demo_lib = (\<lambda>w. (Inr 8, w))"
  "add_subplot demo_lib = (\<lambda>r args w. (Inr 9, w))"
  "axes_set demo_lib = (\<lambda>r n s w. (Inr (), w))"
  "axes_plot demo_lib = (\<lambda>r t a w. (Inr (), w))"
  "plt_show demo_lib = (\<lambda>w. (Inr (), w))"
  by (simp_all add: demo_lib_def)

lemmas eval_defs = world0_def script_config_def np_zeros_def set_column_def
  broadcast_def get_column_def demo_result_def logging_INFO_def upt_rec
  pulsefile_def str_int_def digit_char_def

text \<open>
  Claim C8 on a run: with a plotting backend that fails when the figure is shown, the module
  ends with the backend's exception, raised by its last action, the call of \<^verbatim>\<open>plt.show\<close>.
\<close>

theorem exceptions_propagate_witness:
  "uncaught (main lib_show_fails world0) \<and>
   fst (snd (main lib_show_fails world0)) = Inl (LibraryError ''RuntimeError'') \<and>
   last (fst (main lib_show_fails world0)) =
     (Call (Fn ''plt.show'') [] [], Raised (LibraryError ''RuntimeError''))"
  using exceptions_propagate [of script_config lib_show_fails world0]
  by (simp add: main_def)
    (simp add: script_body physics_value f_ext_value run_defs lib_show_fails_def eval_defs)

text \<open>The run with a gradient check that fails, evaluated.\<close>

lemma demo_amps:
  "map2 (\<lambda>x. list_update x (Suc 0))
     (map2 (\<lambda>x. list_update x 0) (replicate 10 (replicate 2 0))
        [0, 1, 2, 3, 4, 5, 6, 7, 8, 9 :: real])
     [0, 1, 2, 3, 4, 5, 6, 7, 8, 9] =
   [[0, 0], [1, 1], [2, 2], [3, 3], [4, 4], [5, 5], [6, 6], [7, 7], [8, 8], [9, 9 :: real]]"
  by (simp add: numeral_eq_Suc)

lemma check_grad_fails_run:
  "main lib_check_grad_fails world0 =
     (fst (main lib_check_grad_fails world0), Inl (LibraryError ''FloatingPointError''),
      \<lparr>files = [(''ctrl_amps_initial_Lindblad_n_ts10_ptypeLIN.txt'',
                 \<lparr>nrows = 10, ncols = 2,
                    rows = [[0, 0], [1, 1], [2, 2], [3, 3], [4, 4], [5, 5], [6, 6], [7, 7],
                            [8, 8], [9, 9]]\<rparr>)],
        held_amps = \<lparr>nrows = 10, ncols = 2,
                    rows = [[0, 0], [1, 1], [2, 2], [3, 3], [4, 4], [5, 5], [6, 6], [7, 7],
                            [8, 8], [9, 9]]\<rparr>\<rparr>)"
  by (simp add: main_def script_body physics_value f_ext_value run_defs lib_check_grad_fails_def
      eval_defs demo_amps)

lemma check_grad_fails_last:
  "last (fst (main lib_check_grad_fails world0)) =
     (Call (Fn ''check_grad'') [PRef 4, PRef 5,
        PArr [0, 0, 1, 1, 2, 2, 3, 3, 4, 4, 5, 5, 6, 6, 7, 7, 8, 8, 9, 9]] [],
      Raised (LibraryError ''FloatingPointError'')) \<and>
   fst (main lib_check_grad_fails world0) \<noteq> []"
  by (simp add: main_def script_body physics_value f_ext_value run_defs lib_check_grad_fails_def
      eval_defs flatten_def demo_amps)


section \<open>The amplitude file is written first\<close>

lemma saved_first_True: "saved_first True t"
  by (induction t) auto

lemma saved_first_skip:
  "\<forall>en \<in> set t. callee_name (fst en) \<notin> Some ` {''save_amps'', ''check_grad'', ''run_optimization''}
   \<Longrightarrow> saved_first s (t @ u) = saved_first s u"
  by (induction t) auto

lemma saved_first_prefix:
  assumes m: "avoids {''save_amps'', ''check_grad'', ''run_optimization''} m"
    and f: "\<And>x w'. saved_first False (fst (f x w'))"
  shows "saved_first False (fst (then_do m f w))"
proof (cases rule: run_cases [of m w])
  case (raised t e w')
  have "saved_first False (t @ []) = saved_first False []"
    using m raised by (intro saved_first_skip) (auto simp: avoids_def dest!: spec [of _ w])
  with raised show ?thesis
    by (simp add: then_do_raised)
next
  case (returned t x w')
  have "saved_first False (t @ fst (f x w')) = saved_first False (fst (f x w'))"
    using m returned by (intro saved_first_skip) (auto simp: avoids_def dest!: spec [of _ w])
  with f [of x w'] show ?thesis
    using then_do_returned [where m = m and w = w and f = f, OF returned] by simp
qed

lemma saved_first_after_save:
  "saved_first False (fst (then_do (save_initial cfg fext L dyn) f w))"
proof (cases rule: ext_cases [of "save_amps L dyn (pulsefile fext)" w])
  case (raised e w')
  then show ?thesis
    by (simp add: save_initial_def then_do_def call_def)
next
  case (returned x w')
  then show ?thesis
    by (simp add: save_initial_def then_do_def call_def print_def ret_def saved_first_True
        split: prod.splits sum.splits)
qed

lemma saved_first_with_optimizer: "saved_first False (fst (with_optimizer cfg m fext L optim w))"
  unfolding with_optimizer_def Let_def
  by (intro saved_first_prefix saved_first_after_save avoids_gen_init_amps avoids_call) simp_all

lemma saved_first_body: "saved_first False (fst (body cfg m fext L w))"
  unfolding body_def create_optimizer_def
  by (intro saved_first_prefix saved_first_with_optimizer avoids_print avoids_call) simp_all

subsection \<open>What is left of the file when the check or the run raises\<close>

lemma not_ended_by: "avoids N m \<Longrightarrow> \<not> ended_by N (m w)"
  unfolding avoids_def ended_by_def
  by (metis last_in_set)

lemma ended_by_then_do:
  assumes m: "avoids N m" and e: "ended_by N (then_do m f w)"
  obtains t x w' where "m w = (t, Inr x, w')" "ended_by N (f x w')"
    "snd (snd (then_do m f w)) = snd (snd (f x w'))"
proof (cases rule: run_cases [of m w])
  case (raised t e' w')
  then have "then_do m f w = (t, Inl e', w')"
    by (rule then_do_raised)
  with e have "ended_by N (m w)"
    by (simp add: ended_by_def raised)
  with not_ended_by [OF m] show ?thesis
    by blast
next
  case (returned t x w')
  note td = then_do_returned [where m = m and w = w and f = f, OF returned]
  have "fst (f x w') \<noteq> []"
  proof
    assume "fst (f x w') = []"
    with e td have "t \<noteq> []" "callee_name (fst (last t)) \<in> Some ` N"
      by (simp_all add: ended_by_def)
    with m returned show False
      unfolding avoids_def by (metis fst_conv last_in_set)
  qed
  with e td have "ended_by N (f x w')"
    by (simp add: ended_by_def)
  with returned td that show ?thesis
    by simp
qed

lemma frame_then_do:
  assumes k: "\<And>w. fs (snd (snd (m w))) = fs w"
    and u: "\<And>x w'. uncaught (f x w')"
    and f: "\<And>x w'. ended_by N (f x w') \<Longrightarrow> fs (snd (snd (f x w'))) = fs w'"
    and e: "ended_by N (then_do m f w)"
  shows "fs (snd (snd (then_do m f w))) = fs w"
proof (cases rule: run_cases [of m w])
  case (raised t e' w')
  with k [of w] show ?thesis
    by (simp add: then_do_raised)
next
  case (returned t x w')
  note td = then_do_returned [where m = m and w = w and f = f, OF returned]
  from e td obtain e' where o: "fst (snd (f x w')) = Inl e'"
    by (auto simp: ended_by_def)
  with u [of x w'] have ne: "fst (f x w') \<noteq> []"
    by (simp add: uncaught_def)
  with e td o have "ended_by N (f x w')"
    by (simp add: ended_by_def)
  from f [OF this] k [of w] returned td show ?thesis
    by simp
qed

lemma frame_print: "fs (snd (snd (print s w))) = fs w"
  by (simp add: print_def)

lemma frame_ret: "fs (snd (snd (ret x w))) = fs w"
  by (simp add: ret_def)

lemma frame_gradient_check:
  assumes cg: "\<And>f g x w. fs (snd (check_grad L f g x w)) = fs w"
  shows "fs (snd (snd (gradient_check L optim dyn w))) = fs w"
proof -
  let ?f = "fid_err_func_wrapper L optim w"
  let ?g = "fid_err_grad_wrapper L optim w"
  let ?x = "flatten (ctrl_amps L dyn w)"
  show ?thesis
  proof (cases rule: ext_cases [of "check_grad L ?f ?g ?x" w])
    case (raised e w')
    with cg [of ?f ?g ?x w] show ?thesis
      by (simp add: gradient_check_def then_do_def print_def call_def Let_def)
  next
    case (returned v w')
    with cg [of ?f ?g ?x w] show ?thesis
      by (simp add: gradient_check_def then_do_def print_def call_def print_format_def Let_def)
  qed
qed

lemma uncaught_after_run: "uncaught (then_do (report L r) (\<lambda>_. plot_results cfg m L r) w)"
  by (intro uncaught_then_do uncaught_report uncaught_plot_results)

lemma uncaught_optimise: "uncaught (optimise cfg m L optim w)"
  unfolding optimise_def
  by (intro uncaught_intros uncaught_report uncaught_plot_results)

lemma frame_run_call:
  assumes run: "\<And>r a k w. fs (snd (run_optimization L r a k w)) = fs w"
    and e: "ended_by {''check_grad'', ''run_optimization''}
      (then_do (call (Method optim ''run_optimization'') [] [] PResult
                  (run_optimization L optim [] []))
         (\<lambda>result. then_do (report L result) (\<lambda>_. plot_results cfg m L result)) w)"
  shows "fs (snd (snd
      (then_do (call (Method optim ''run_optimization'') [] [] PResult
                  (run_optimization L optim [] []))
         (\<lambda>result. then_do (report L result) (\<lambda>_. plot_results cfg m L result)) w))) = fs w"
proof (cases rule: ext_cases [of "run_optimization L optim [] []" w])
  case (raised e' w')
  with run [of optim "[]" "[]" w] show ?thesis
    by (simp add: then_do_call_raised [where op = "run_optimization L optim [] []", OF raised])
next
  case (returned result w')
  let ?rest = "then_do (report L result) (\<lambda>_. plot_results cfg m L result) w'"
  note td = then_do_call_returned [where op = "run_optimization L optim [] []", OF returned]
  from e obtain e' where o: "fst (snd ?rest) = Inl e'"
    by (auto simp: ended_by_def td)
  with uncaught_after_run [of L result cfg m w'] have ne: "fst ?rest \<noteq> []"
    by (simp add: uncaught_def)
  with e o have en: "ended_by {''check_grad'', ''run_optimization''} ?rest"
    by (simp add: ended_by_def td)
  have av: "avoids {''check_grad'', ''run_optimization''}
      (then_do (report L result) (\<lambda>_. plot_results cfg m L result))"
    by (simp add: avoids_after_run)
  from not_ended_by [OF av, of w'] en show ?thesis
    by contradiction
qed

lemma frame_optimise:
  assumes run: "\<And>r a k w. fs (snd (run_optimization L r a k w)) = fs w"
    and e: "ended_by {''check_grad'', ''run_optimization''} (optimise cfg m L optim w)"
  shows "fs (snd (snd (optimise cfg m L optim w))) = fs w"
  using e unfolding optimise_def
  by (intro frame_then_do [where N = "{''check_grad'', ''run_optimization''}"] frame_print
      frame_run_call run uncaught_intros uncaught_report uncaught_plot_results)

lemma frame_tail:
  assumes cg: "\<And>f g x w. fs (snd (check_grad L f g x w)) = fs w"
    and run: "\<And>r a k w. fs (snd (run_optimization L r a k w)) = fs w"
    and e: "ended_by {''check_grad'', ''run_optimization''}
      (then_do (if check_gradient cfg then gradient_check L optim dyn else ret ())
         (\<lambda>_. optimise cfg m L optim) w)"
  shows "fs (snd (snd
      (then_do (if check_gradient cfg then gradient_check L optim dyn else ret ())
         (\<lambda>_. optimise cfg m L optim) w))) = fs w"
proof -
  have k: "fs (snd (snd ((if check_gradient cfg then gradient_check L optim dyn else ret ()) w)))
      = fs w" for w
    using frame_gradient_check [of fs L optim dyn w, OF cg] by (simp add: frame_ret)
  show ?thesis
    using e
    by (intro frame_then_do [where N = "{''check_grad'', ''run_optimization''}"] k
        uncaught_optimise frame_optimise run)
qed

section \<open>The initial amplitudes\<close>

lemma then_do_Inr:
  assumes "then_do m f w = (t, Inr y, w'')"
  obtains t1 x w1 t2 where "m w = (t1, Inr x, w1)" "f x w1 = (t2, Inr y, w'')" "t = t1 @ t2"
proof (cases rule: run_cases [of m w])
  case (raised t1 e w1)
  with assms show ?thesis
    by (simp add: then_do_raised)
next
  case (returned t1 x w1)
  with assms that [of t1 x w1 "fst (f x w1)"] show ?thesis
    by (cases "f x w1") (simp add: then_do_returned [where m = m and w = w and f = f])
qed

lemma call_Inr:
  "call c args kw conv op w = (t, Inr x, w') \<Longrightarrow>
   op w = (Inr x, w') \<and> t = [(Call c args kw, Returned (conv x))]"
  by (cases rule: ext_cases [of op w]) (auto simp: call_def)

lemma numpy_Inr:
  "numpy n conv r w = (t, Inr x, w') \<Longrightarrow> r = Inr x \<and> w' = w \<and> t = [(Numpy n, Returned (conv x))]"
  by (cases r) (auto simp: numpy_def)

lemma set_column_props:
  assumes wf: "wf_array2 a" and j: "j < ncols a" and s: "set_column a j v = Inr a'"
  shows "wf_array2 a'" "nrows a' = nrows a" "ncols a' = ncols a"
    "get_column a' j = Inr (broadcast (nrows a) v)"
    "\<And>i. i \<noteq> j \<Longrightarrow> get_column a' i = get_column a i"
proof -
  let ?b = "broadcast (nrows a) v"
  have lb: "length ?b = nrows a"
    using s by (auto simp: set_column_def broadcast_def split: if_splits)
  have a': "a' = a\<lparr>rows := map2 (\<lambda>r x. r[j := x]) (rows a) ?b\<rparr>"
    using s by (auto simp: set_column_def split: if_splits)
  have lr: "length (rows a) = nrows a" and lc: "\<And>r. r \<in> set (rows a) \<Longrightarrow> length r = ncols a"
    using wf by (auto simp: wf_array2_def list_all_iff)
  show "wf_array2 a'"
    using lr lc lb by (auto simp: a' wf_array2_def list_all_iff dest!: set_zip_leftD)
  show "nrows a' = nrows a" "ncols a' = ncols a"
    by (simp_all add: a')
  show "get_column a' j = Inr ?b"
    using j lr lb lc by (auto simp: a' get_column_def intro!: nth_equalityI)
  show "get_column a' i = get_column a i" if "i \<noteq> j" for i
    using that lr lb by (auto simp: a' get_column_def intro!: nth_equalityI)
qed

lemma pulses_returned_append [simp]:
  "pulses_returned (t @ u) = pulses_returned t @ pulses_returned u"
  by (simp add: pulses_returned_def)

lemma initialized_with_append [simp]:
  "initialized_with (t @ u) = initialized_with t @ initialized_with u"
  by (simp add: initialized_with_def)

lemma fill_columns_columns:
  assumes "fill_columns L p js a w = (t, Inr a', w')"
    and "wf_array2 a" and "distinct js" and "\<forall>j \<in> set js. j < ncols a"
  shows "wf_array2 a' \<and> nrows a' = nrows a \<and> ncols a' = ncols a \<and>
    map (get_column a') js = map (\<lambda>v. Inr (broadcast (nrows a) v)) (pulses_returned t) \<and>
    (\<forall>i. i \<notin> set js \<longrightarrow> get_column a' i = get_column a i)"
  using assms
proof (induction js arbitrary: a w t)
  case Nil
  then show ?case
    by (simp add: ret_def pulses_returned_def)
next
  case (Cons j js)
  from Cons.prems(1) have "then_do (call (Method p ''gen_pulse'') [] [] PArr (gen_pulse L p))
      (\<lambda>v. then_do (numpy ''setitem'' PArr2 (set_column a j v))
                (\<lambda>a'. fill_columns L p js a')) w = (t, Inr a', w')"
    by simp
  then obtain t1 v w1 t2 where
    g: "call (Method p ''gen_pulse'') [] [] PArr (gen_pulse L p) w = (t1, Inr v, w1)"
    and r: "then_do (numpy ''setitem'' PArr2 (set_column a j v))
              (\<lambda>a'. fill_columns L p js a') w1 = (t2, Inr a', w')"
    and t: "t = t1 @ t2"
    by (rule then_do_Inr)
  from r obtain t3 a1 w2 t4 where
    n: "numpy ''setitem'' PArr2 (set_column a j v) w1 = (t3, Inr a1, w2)"
    and f: "fill_columns L p js a1 w2 = (t4, Inr a', w')"
    and t2: "t2 = t3 @ t4"
    by (rule then_do_Inr)
  have t1: "t1 = [(Call (Method p ''gen_pulse'') [] [], Returned (PArr v))]"
    using call_Inr [OF g] by simp
  have s: "set_column a j v = Inr a1" and t3: "t3 = [(Numpy ''setitem'', Returned (PArr2 a1))]"
    using numpy_Inr [OF n] by simp_all
  have j: "j < ncols a" and js: "j \<notin> set js"
    using Cons.prems by simp_all
  note sc = set_column_props [OF Cons.prems(2) j s]
  have ih: "wf_array2 a' \<and> nrows a' = nrows a1 \<and> ncols a' = ncols a1 \<and>
    map (get_column a') js = map (\<lambda>v. Inr (broadcast (nrows a1) v)) (pulses_returned t4) \<and>
    (\<forall>i. i \<notin> set js \<longrightarrow> get_column a' i = get_column a1 i)"
    using Cons.prems sc by (intro Cons.IH [OF f]) simp_all
  have p: "pulses_returned t = v # pulses_returned t4"
    by (simp add: t t1 t2 t3) (simp add: pulses_returned_def pulse_of_def)
  show ?case
    using ih sc js by (simp add: p)
qed

lemma np_zeros_props:
  "np_zeros t n = Inr a \<Longrightarrow> wf_array2 a \<and> nrows a = nat t \<and> ncols a = nat n"
  by (auto simp: np_zeros_def wf_array2_def list_all_iff split: if_splits)

lemma gen_init_amps_columns:
  assumes "gen_init_amps cfg m L p w = (t, Inr a, w')"
  shows "shape a = (nat (n_ts cfg), n_ctrls m) \<and> wf_array2 a \<and>
    map (get_column a) [0..<n_ctrls m] =
      map (\<lambda>v. Inr (broadcast (nat (n_ts cfg)) v)) (pulses_returned t)"
proof -
  from assms have "then_do (numpy ''zeros'' PArr2 (np_zeros (n_ts cfg) (int (n_ctrls m))))
      (\<lambda>a0. fill_columns L p [0..<n_ctrls m] a0) w = (t, Inr a, w')"
    by (simp add: gen_init_amps_def)
  then obtain t1 a0 w1 t2 where
    z: "numpy ''zeros'' PArr2 (np_zeros (n_ts cfg) (int (n_ctrls m))) w = (t1, Inr a0, w1)"
    and f: "fill_columns L p [0..<n_ctrls m] a0 w1 = (t2, Inr a, w')"
    and t: "t = t1 @ t2"
    by (rule then_do_Inr)
  have a0: "wf_array2 a0 \<and> nrows a0 = nat (n_ts cfg) \<and> ncols a0 = nat (int (n_ctrls m))"
    using numpy_Inr [OF z] by (intro np_zeros_props) simp
  have t1: "pulses_returned t1 = []"
    using numpy_Inr [OF z] by (simp add: pulses_returned_def pulse_of_def)
  from fill_columns_columns [OF f] a0 show ?thesis
    by (simp add: t t1 shape_def)
qed

lemma pulse_of_other: "callee_name (fst en) \<noteq> Some ''gen_pulse'' \<Longrightarrow> pulse_of en = []"
  by (cases en rule: prod.exhaust; cases "fst en"; cases "snd en")
    (auto simp: pulse_of_def split: callee.splits pyval.splits)

lemma init_arg_of_other:
  "callee_name (fst en) \<noteq> Some ''initialize_controls'' \<Longrightarrow> init_arg_of en = []"
  by (cases "fst en") (auto simp: init_arg_of_def split: callee.splits list.splits pyval.splits)

lemma pulses_returned_avoids:
  "avoids S m \<Longrightarrow> ''gen_pulse'' \<in> S \<Longrightarrow> pulses_returned (fst (m w)) = []"
  by (auto simp: avoids_def pulses_returned_def intro!: pulse_of_other)

lemma initialized_with_avoids:
  "avoids S m \<Longrightarrow> ''initialize_controls'' \<in> S \<Longrightarrow> initialized_with (fst (m w)) = []"
  by (auto simp: avoids_def initialized_with_def intro!: init_arg_of_other)

lemma columns_are_pulses_prefix:
  assumes m: "avoids {''gen_pulse'', ''initialize_controls''} m"
    and f: "\<And>x w'. columns_are_pulses T N (fst (f x w'))"
  shows "columns_are_pulses T N (fst (then_do m f w))"
proof (cases rule: run_cases [of m w])
  case (raised t e w')
  with initialized_with_avoids [OF m, of w] show ?thesis
    by (simp add: then_do_raised columns_are_pulses_def)
next
  case (returned t x w')
  with initialized_with_avoids [OF m, of w] pulses_returned_avoids [OF m, of w] f [of x w']
  show ?thesis
    by (simp add: then_do_returned [where m = m and w = w and f = f] columns_are_pulses_def)
qed

lemma avoids_after_init:
  "avoids {''gen_pulse'', ''initialize_controls''}
     (then_do (save_initial cfg fext L dyn) (\<lambda>_.
      then_do (if check_gradient cfg then gradient_check L optim dyn else ret ()) (\<lambda>_.
      optimise cfg m L optim)))"
proof -
  have g: "avoids {''gen_pulse'', ''initialize_controls''}
      (if check_gradient cfg then gradient_check L optim dyn else ret ())"
    by (simp add: avoids_gradient_check)
  show ?thesis
    by (intro avoids_then_do avoids_save_initial g avoids_optimise) simp_all
qed

lemma columns_are_pulses_with_optimizer:
  "columns_are_pulses (nat (n_ts cfg)) (n_ctrls m) (fst (with_optimizer cfg m fext L optim w))"
proof -
  let ?dyn = "dynamics L optim w" and ?p = "pulse_generator L optim w"
  let ?rest = "then_do (save_initial cfg fext L ?dyn) (\<lambda>_.
      then_do (if check_gradient cfg then gradient_check L optim ?dyn else ret ()) (\<lambda>_.
      optimise cfg m L optim))"
  let ?init = "\<lambda>a. then_do (call (Method ?dyn ''initialize_controls'') [PArr2 a] [] (\<lambda>_. PNone)
      (initialize_controls L ?dyn a)) (\<lambda>_. ?rest)"
  have wo: "with_optimizer cfg m fext L optim w = then_do (gen_init_amps cfg m L ?p) ?init w"
    by (simp add: with_optimizer_def Let_def)
  have i: "initialized_with (fst (?init a w1)) = [a] \<and> pulses_returned (fst (?init a w1)) = []"
    for a w1
  proof (cases rule: ext_cases [of "initialize_controls L ?dyn a" w1])
    case (raised e w2)
    show ?thesis
      by (simp add: then_do_call_raised [where op = "initialize_controls L ?dyn a", OF raised])
        (simp add: initialized_with_def init_arg_of_def pulses_returned_def pulse_of_def)
  next
    case (returned u w2)
    have "initialized_with (fst (?rest w2)) = []" "pulses_returned (fst (?rest w2)) = []"
      using avoids_after_init [of cfg fext L ?dyn optim m]
      by (simp_all add: initialized_with_avoids pulses_returned_avoids)
    then show ?thesis
      by (simp add: then_do_call_returned [where op = "initialize_controls L ?dyn a", OF returned])
        (simp add: initialized_with_def init_arg_of_def pulses_returned_def pulse_of_def)
  qed
  show ?thesis
  proof (cases rule: run_cases [of "gen_init_amps cfg m L ?p" w])
    case (raised t e w')
    have "initialized_with (fst (gen_init_amps cfg m L ?p w)) = []"
      by (rule initialized_with_avoids [of "{''initialize_controls''}"])
        (simp_all add: avoids_gen_init_amps)
    with raised show ?thesis
      by (simp add: wo then_do_raised columns_are_pulses_def)
  next
    case (returned t a w1)
    have "initialized_with (fst (gen_init_amps cfg m L ?p w)) = []"
      by (rule initialized_with_avoids [of "{''initialize_controls''}"])
        (simp_all add: avoids_gen_init_amps)
    with returned gen_init_amps_columns [OF returned] i [of a w1] show ?thesis
      by (simp add: wo columns_are_pulses_def
          then_do_returned [where m = "gen_init_amps cfg m L ?p" and w = w and f = ?init])
  qed
qed

lemma columns_are_pulses_body:
  "columns_are_pulses (nat (n_ts cfg)) (n_ctrls m) (fst (body cfg m fext L w))"
  unfolding body_def create_optimizer_def
  by (intro columns_are_pulses_prefix columns_are_pulses_with_optimizer avoids_print avoids_call)
    simp_all

lemma gen_pulse_calls_fill_columns:
  "set (calls_named ''gen_pulse'' (fst (fill_columns L p js a w))) \<subseteq>
     {Call (Method p ''gen_pulse'') [] []}"
proof (induction js arbitrary: a w)
  case Nil
  then show ?case by simp
next
  case (Cons j js)
  then show ?case
    by (auto simp: cn_then_do cn_call split: sum.splits)
qed

lemma cn_then_do_rest:
  assumes "\<And>x. avoids {n} (f x)"
  shows "calls_named n (fst (then_do m f w)) = calls_named n (fst (m w))"
proof (cases rule: run_cases [of m w])
  case (raised t e w')
  then show ?thesis
    by (simp add: then_do_raised)
next
  case (returned t x w')
  with avoidsD [OF assms, of n x w'] show ?thesis
    by (simp add: then_do_returned [where m = m and w = w and f = f])
qed

lemma gen_pulse_calls_gen_init_amps:
  "set (calls_named ''gen_pulse'' (fst (gen_init_amps cfg m L p w))) \<subseteq>
     {Call (Method p ''gen_pulse'') [] []}"
proof (cases rule: run_cases
    [of "numpy ''zeros'' PArr2 (np_zeros (n_ts cfg) (int (n_ctrls m)))" w])
  case (raised t e w')
  have "calls_named ''gen_pulse'' t = []"
    using cn_basic(4) [of "''gen_pulse''" "''zeros''" PArr2
        "np_zeros (n_ts cfg) (int (n_ctrls m))" w] raised by simp
  with raised show ?thesis
    by (simp add: gen_init_amps_def then_do_raised)
next
  case (returned t a w')
  have "calls_named ''gen_pulse'' t = []"
    using cn_basic(4) [of "''gen_pulse''" "''zeros''" PArr2
        "np_zeros (n_ts cfg) (int (n_ctrls m))" w] returned by simp
  with gen_pulse_calls_fill_columns [of L p "[0..<n_ctrls m]" a w'] show ?thesis
    by (simp add: gen_init_amps_def then_do_returned
        [where m = "numpy ''zeros'' PArr2 (np_zeros (n_ts cfg) (int (n_ctrls m)))" and w = w,
          OF returned])
qed

lemma gen_pulse_calls_with_optimizer:
  "\<exists>p. set (calls_named ''gen_pulse'' (fst (with_optimizer cfg m fext L optim w))) \<subseteq>
     {Call (Method p ''gen_pulse'') [] []}"
proof -
  let ?dyn = "dynamics L optim w" and ?p = "pulse_generator L optim w"
  let ?rest = "then_do (save_initial cfg fext L ?dyn) (\<lambda>_.
      then_do (if check_gradient cfg then gradient_check L optim ?dyn else ret ()) (\<lambda>_.
      optimise cfg m L optim))"
  let ?init = "\<lambda>a. then_do (call (Method ?dyn ''initialize_controls'') [PArr2 a] [] (\<lambda>_. PNone)
      (initialize_controls L ?dyn a)) (\<lambda>_. ?rest)"
  have wo: "with_optimizer cfg m fext L optim w = then_do (gen_init_amps cfg m L ?p) ?init w"
    by (simp add: with_optimizer_def Let_def)
  have r: "avoids {''gen_pulse''} ?rest"
  proof -
    have g: "avoids {''gen_pulse''}
        (if check_gradient cfg then gradient_check L optim ?dyn else ret ())"
      by (simp add: avoids_gradient_check)
    show ?thesis
      by (intro avoids_then_do avoids_save_initial g avoids_optimise) simp_all
  qed
  have i: "avoids {''gen_pulse''} (?init a)" for a
    by (intro avoids_then_do avoids_call r) simp
  have "calls_named ''gen_pulse'' (fst (with_optimizer cfg m fext L optim w)) =
      calls_named ''gen_pulse'' (fst (gen_init_amps cfg m L ?p w))"
    unfolding wo by (rule cn_then_do_rest) (rule i)
  with gen_pulse_calls_gen_init_amps [of cfg m L ?p w] show ?thesis
    by auto
qed

lemma body_raised:
  "create_pulse_optimizer L (create_args cfg m) (create_kwargs cfg) w = (Inl e, w') \<Longrightarrow>
   body cfg m fext L w =
     ([(Print (newline # stars), Returned PNone),
       (Print ''Starting pulse optimisation'', Returned PNone),
       (Call (Fn ''cpo.create_pulse_optimizer'') (create_args cfg m) (create_kwargs cfg),
        Raised e)], Inl e, w')"
  by (simp add: body_def create_optimizer_def then_do_print then_do_call_raised)

lemma body_returned:
  "create_pulse_optimizer L (create_args cfg m) (create_kwargs cfg) w = (Inr optim, w') \<Longrightarrow>
   body cfg m fext L w =
     ([(Print (newline # stars), Returned PNone),
       (Print ''Starting pulse optimisation'', Returned PNone),
       (Call (Fn ''cpo.create_pulse_optimizer'') (create_args cfg m) (create_kwargs cfg),
        Returned (PRef optim))] @ fst (with_optimizer cfg m fext L optim w'),
      snd (with_optimizer cfg m fext L optim w'))"
  by (simp add: body_def create_optimizer_def then_do_print then_do_call_returned)

lemma gen_pulse_calls_body:
  "\<exists>p. set (calls_named ''gen_pulse'' (fst (body cfg m fext L w))) \<subseteq>
     {Call (Method p ''gen_pulse'') [] []}"
proof (cases rule: ext_cases
    [of "create_pulse_optimizer L (create_args cfg m) (create_kwargs cfg)" w])
  case (raised e w')
  show ?thesis
    by (simp add: body_raised [OF raised] calls_named_Cons)
next
  case (returned optim w')
  from gen_pulse_calls_with_optimizer [of cfg m fext L optim w'] show ?thesis
    by (simp add: body_returned [OF returned] calls_named_Cons)
qed

text \<open>
  Claim C4. The model has as many controls as the list of control generators is long. In
  every run, the array passed to \<^verbatim>\<open>initialize_controls\<close> has shape \<open>(T, N)\<close>, for \<open>T\<close> the
  configured number of time slots and \<open>N\<close> the number of controls; its \<open>N\<close> columns are, in
  order, the results of the \<open>N\<close> calls of \<^verbatim>\<open>gen_pulse\<close> made before, one call per column, and
  each call is made on the same pulse generator with no argument, so no column depends on
  what another call returned. The same holds for the script body run with any other model,
  whatever its number of controls.
\<close>

theorem initial_amplitudes_shape:
  "\<exists>m. physics (gamma cfg) = Inr m \<and> n_ctrls m = length (ctrls m) \<and>
       columns_are_pulses (nat (n_ts cfg)) (length (ctrls m)) (fst (script cfg L w)) \<and>
       (\<exists>p. set (calls_named ''gen_pulse'' (fst (script cfg L w))) \<subseteq>
              {Call (Method p ''gen_pulse'') [] []}) \<and>
       (\<forall>m' fext. columns_are_pulses (nat (n_ts cfg)) (n_ctrls m') (fst (body cfg m' fext L w)))"
proof -
  let ?m = "projr (physics (gamma cfg))"
  have p: "physics (gamma cfg) = Inr ?m" and n: "n_ctrls ?m = length (ctrls ?m)"
    by (simp_all add: physics_value)
  have c: "columns_are_pulses (nat (n_ts cfg)) (length (ctrls ?m)) (fst (script cfg L w))"
    using columns_are_pulses_body [of cfg ?m "projr (f_ext cfg)" L w]
    by (simp only: script_body n)
  have g: "\<exists>p. set (calls_named ''gen_pulse'' (fst (script cfg L w))) \<subseteq>
              {Call (Method p ''gen_pulse'') [] []}"
    using gen_pulse_calls_body [of cfg ?m "projr (f_ext cfg)" L w]
    by (simp only: script_body)
  from p n c g columns_are_pulses_body [of cfg _ _ L w] show ?thesis
    by blast
qed

text \<open>
  Claim C4 on a run: with the small library the array has ten rows and two columns, each
  column the ramp the generator returned.
\<close>

lemma demo_run_amps:
  "initialized_with (fst (main demo_lib world0)) =
     [\<lparr>nrows = 10, ncols = 2,
       rows = [[0, 0], [1, 1], [2, 2], [3, 3], [4, 4], [5, 5], [6, 6], [7, 7], [8, 8], [9, 9]]\<rparr>] \<and>
   pulses_returned (fst (main demo_lib world0)) =
     [[0, 1, 2, 3, 4, 5, 6, 7, 8, 9], [0, 1, 2, 3, 4, 5, 6, 7, 8, 9]]"
  by (simp add: main_def script_body physics_value f_ext_value run_defs eval_defs demo_amps
      initialized_with_def init_arg_of_def pulses_returned_def pulse_of_def)

theorem initial_amplitudes_shape_witness:
  "columns_are_pulses 10 2 (fst (main demo_lib world0)) \<and>
   initialized_with (fst (main demo_lib world0)) =
     [\<lparr>nrows = 10, ncols = 2,
       rows = [[0, 0], [1, 1], [2, 2], [3, 3], [4, 4], [5, 5], [6, 6], [7, 7], [8, 8], [9, 9]]\<rparr>] \<and>
   pulses_returned (fst (main demo_lib world0)) =
     [[0, 1, 2, 3, 4, 5, 6, 7, 8, 9], [0, 1, 2, 3, 4, 5, 6, 7, 8, 9]]"
proof -
  from initial_amplitudes_shape [of script_config demo_lib world0] obtain m where
    m: "physics (gamma script_config) = Inr m"
    and c: "columns_are_pulses (nat (n_ts script_config)) (length (ctrls m))
      (fst (script script_config demo_lib world0))"
    by blast
  have "length (ctrls m) = 2"
    using m by (auto simp: physics_value)
  moreover have "nat (n_ts script_config) = 10"
    by (simp add: script_config_def)
  ultimately have "columns_are_pulses 10 2 (fst (main demo_lib world0))"
    using c by (simp add: main_def)
  with demo_run_amps show ?thesis
    by simp
qed

section \<open>The gradient check\<close>












section \<open>The script cut at the save\<close>

lemma then_do_assoc: "then_do (then_do m f) g = then_do m (\<lambda>x. then_do (f x) g)"
  by (rule ext) (auto simp: then_do_def split: prod.splits sum.splits)

lemma then_do_ret_left: "then_do (ret x) f = f x"
  by (rule ext) (simp add: then_do_ret)

lemma body_split:
  "body cfg m fext L = then_do (upto_save cfg m fext L) (after_save cfg m fext L)"
proof -
  define G where "G optim w =
      (let dyn = dynamics L optim w;
           p_gen = pulse_generator L optim w
       in then_do (gen_init_amps cfg m L p_gen) (\<lambda>init_amps.
          then_do (call (Method dyn ''initialize_controls'') [PArr2 init_amps] [] (\<lambda>_. PNone)
                     (initialize_controls L dyn init_amps)) (\<lambda>_.
          then_do (call (Method dyn ''save_amps'') [PStr (pulsefile fext)] [] (\<lambda>_. PNone)
                     (save_amps L dyn (pulsefile fext))) (\<lambda>_.
          ret (optim, dyn)))))" for optim w
  have w: "with_optimizer cfg m fext L optim =
      then_do (\<lambda>w. G optim w w) (after_save cfg m fext L)" for optim
  proof (rule ext)
    fix x
    have "then_do (\<lambda>w. G optim w w) (after_save cfg m fext L) x =
        then_do (G optim x) (after_save cfg m fext L) x"
      by (simp add: then_do_def)
    also have "\<dots> = with_optimizer cfg m fext L optim x"
      by (simp add: with_optimizer_def G_def Let_def save_initial_def after_save_def
          then_do_assoc then_do_ret_left split del: if_split cong: if_cong)
    finally show "with_optimizer cfg m fext L optim x =
        then_do (\<lambda>w. G optim w w) (after_save cfg m fext L) x"
      by simp
  qed
  have u: "upto_save cfg m fext L =
      then_do (print (newline # stars)) (\<lambda>_.
      then_do (print ''Starting pulse optimisation'') (\<lambda>_.
      then_do (create_optimizer cfg m L) (\<lambda>optim w. G optim w w)))"
    by (simp add: upto_save_def G_def)
  show ?thesis
    by (simp add: body_def u w then_do_assoc)
qed

lemma avoids_upto_save:
  assumes "''cpo.create_pulse_optimizer'' \<notin> S" "''gen_pulse'' \<notin> S"
    "''initialize_controls'' \<notin> S" "''save_amps'' \<notin> S"
  shows "avoids S (upto_save cfg m fext L)"
proof -
  have inner: "avoids S
      (then_do (gen_init_amps cfg m L p_gen) (\<lambda>init_amps.
       then_do (call (Method dyn ''initialize_controls'') [PArr2 init_amps] [] (\<lambda>_. PNone)
                  (initialize_controls L dyn init_amps)) (\<lambda>_.
       then_do (call (Method dyn ''save_amps'') [PStr (pulsefile fext)] [] (\<lambda>_. PNone)
                  (save_amps L dyn (pulsefile fext))) (\<lambda>_.
       ret (optim, dyn)))))" for dyn p_gen optim
    using assms by (intro avoids_then_do avoids_gen_init_amps avoids_call avoids_ret) auto
  have "avoids S (\<lambda>w.
      (let dyn = dynamics L optim w;
           p_gen = pulse_generator L optim w
       in then_do (gen_init_amps cfg m L p_gen) (\<lambda>init_amps.
          then_do (call (Method dyn ''initialize_controls'') [PArr2 init_amps] [] (\<lambda>_. PNone)
                     (initialize_controls L dyn init_amps)) (\<lambda>_.
          then_do (call (Method dyn ''save_amps'') [PStr (pulsefile fext)] [] (\<lambda>_. PNone)
                     (save_amps L dyn (pulsefile fext))) (\<lambda>_.
          ret (optim, dyn))))) w)" for optim
    unfolding avoids_def
  proof (intro allI ballI)
    fix w en
    assume "en \<in> set (fst ((let dyn = dynamics L optim w;
           p_gen = pulse_generator L optim w
       in then_do (gen_init_amps cfg m L p_gen) (\<lambda>init_amps.
          then_do (call (Method dyn ''initialize_controls'') [PArr2 init_amps] [] (\<lambda>_. PNone)
                     (initialize_controls L dyn init_amps)) (\<lambda>_.
          then_do (call (Method dyn ''save_amps'') [PStr (pulsefile fext)] [] (\<lambda>_. PNone)
                     (save_amps L dyn (pulsefile fext))) (\<lambda>_.
          ret (optim, dyn))))) w))"
    with inner [of "pulse_generator L optim w" "dynamics L optim w" optim]
    show "callee_name (fst en) \<notin> Some ` S"
      unfolding avoids_def Let_def by blast
  qed
  then show ?thesis
    unfolding upto_save_def create_optimizer_def
    using assms by (intro avoids_then_do avoids_print avoids_call) auto
qed

lemma upto_save_returned:
  assumes "upto_save cfg m fext L w = (t, Inr (optim, dyn), w2)"
  shows "t \<noteq> [] \<and>
    last t = (Call (Method dyn ''save_amps'') [PStr (pulsefile fext)] [], Returned PNone) \<and>
    (\<exists>w1. save_amps L dyn (pulsefile fext) w1 = (Inr (), w2))"
proof -
  from assms obtain t1 u1 w1 r1 where
    1: "then_do (print ''Starting pulse optimisation'') (\<lambda>_.
        then_do (create_optimizer cfg m L) (\<lambda>optim w.
          (let dyn = dynamics L optim w;
               p_gen = pulse_generator L optim w
           in then_do (gen_init_amps cfg m L p_gen) (\<lambda>init_amps.
              then_do (call (Method dyn ''initialize_controls'') [PArr2 init_amps] []
                         (\<lambda>_. PNone) (initialize_controls L dyn init_amps)) (\<lambda>_.
              then_do (call (Method dyn ''save_amps'') [PStr (pulsefile fext)] [] (\<lambda>_. PNone)
                         (save_amps L dyn (pulsefile fext))) (\<lambda>_.
              ret (optim, dyn))))) w)) w1 = (r1, Inr (optim, dyn), w2)"
    and t1: "t = t1 @ r1"
    unfolding upto_save_def by (rule then_do_Inr)
  from 1 obtain t2 u2 w2' r2 where
    2: "then_do (create_optimizer cfg m L) (\<lambda>optim w.
          (let dyn = dynamics L optim w;
               p_gen = pulse_generator L optim w
           in then_do (gen_init_amps cfg m L p_gen) (\<lambda>init_amps.
              then_do (call (Method dyn ''initialize_controls'') [PArr2 init_amps] []
                         (\<lambda>_. PNone) (initialize_controls L dyn init_amps)) (\<lambda>_.
              then_do (call (Method dyn ''save_amps'') [PStr (pulsefile fext)] [] (\<lambda>_. PNone)
                         (save_amps L dyn (pulsefile fext))) (\<lambda>_.
              ret (optim, dyn))))) w) w2' = (r2, Inr (optim, dyn), w2)"
    and t2: "r1 = t2 @ r2"
    by (rule then_do_Inr)
  from 2 obtain t3 o3 w3 r3 where
    3: "(let dyn = dynamics L o3 w3;
             p_gen = pulse_generator L o3 w3
         in then_do (gen_init_amps cfg m L p_gen) (\<lambda>init_amps.
            then_do (call (Method dyn ''initialize_controls'') [PArr2 init_amps] []
                       (\<lambda>_. PNone) (initialize_controls L dyn init_amps)) (\<lambda>_.
            then_do (call (Method dyn ''save_amps'') [PStr (pulsefile fext)] [] (\<lambda>_. PNone)
                       (save_amps L dyn (pulsefile fext))) (\<lambda>_.
            ret (o3, dyn))))) w3 = (r3, Inr (optim, dyn), w2)"
    and t3: "r2 = t3 @ r3"
    by (rule then_do_Inr)
  let ?d = "dynamics L o3 w3"
  from 3 obtain t4 a4 w4 r4 where
    4: "then_do (call (Method ?d ''initialize_controls'') [PArr2 a4] []
                       (\<lambda>_. PNone) (initialize_controls L ?d a4)) (\<lambda>_.
            then_do (call (Method ?d ''save_amps'') [PStr (pulsefile fext)] [] (\<lambda>_. PNone)
                       (save_amps L ?d (pulsefile fext))) (\<lambda>_.
            ret (o3, ?d))) w4 = (r4, Inr (optim, dyn), w2)"
    and t4: "r3 = t4 @ r4"
    unfolding Let_def by (rule then_do_Inr)
  from 4 obtain t5 u5 w5 r5 where
    5: "then_do (call (Method ?d ''save_amps'') [PStr (pulsefile fext)] [] (\<lambda>_. PNone)
                       (save_amps L ?d (pulsefile fext))) (\<lambda>_.
            ret (o3, ?d)) w5 = (r5, Inr (optim, dyn), w2)"
    and t5: "r4 = t5 @ r5"
    by (rule then_do_Inr)
  from 5 obtain t6 u6 w6 r6 where
    6: "call (Method ?d ''save_amps'') [PStr (pulsefile fext)] [] (\<lambda>_. PNone)
          (save_amps L ?d (pulsefile fext)) w5 = (t6, Inr u6, w6)"
    and 7: "ret (o3, ?d) w6 = (r6, Inr (optim, dyn), w2)"
    and t6: "r5 = t6 @ r6"
    by (rule then_do_Inr)
  from 7 have d: "dyn = ?d" and r6: "r6 = []" and w6: "w6 = w2"
    by (auto simp: ret_def)
  from call_Inr [OF 6] have c: "t6 = [(Call (Method ?d ''save_amps'') [PStr (pulsefile fext)] [],
      Returned PNone)]" and s: "save_amps L ?d (pulsefile fext) w5 = (Inr (), w2)"
    by (simp_all add: w6)
  from s have "\<exists>w1. save_amps L dyn (pulsefile fext) w1 = (Inr (), w2)"
    unfolding d by blast
  with c show ?thesis
    by (simp add: t1 t2 t3 t4 t5 t6 r6 d)
qed

lemma uncaught_after_save: "uncaught (after_save cfg m fext L od w)"
  unfolding after_save_def optimise_def
  by (intro uncaught_intros uncaught_gradient_check uncaught_report uncaught_plot_results)

lemma frame_after_save:
  assumes cg: "\<And>f g x w. fs (snd (check_grad L f g x w)) = fs w"
    and run: "\<And>r a k w. fs (snd (run_optimization L r a k w)) = fs w"
    and e: "ended_by {''check_grad'', ''run_optimization''} (after_save cfg m fext L od w)"
  shows "fs (snd (snd (after_save cfg m fext L od w))) = fs w"
proof -
  let ?N = "{''check_grad'', ''run_optimization''}"
  let ?tail = "then_do (if check_gradient cfg then gradient_check L (fst od) (snd od) else ret ())
      (\<lambda>_. optimise cfg m L (fst od))"
  have k: "fs (snd (snd ((if log_level cfg \<le> logging_INFO
      then print (''Initial amplitudes output to file: '' @ pulsefile fext)
      else ret ()) w'))) = fs w'" for w'
    by (simp add: frame_print frame_ret)
  have u: "uncaught (?tail w')" for w'
    unfolding optimise_def
    by (intro uncaught_intros uncaught_gradient_check uncaught_report uncaught_plot_results)
  have f: "ended_by ?N (?tail w') \<Longrightarrow> fs (snd (snd (?tail w'))) = fs w'" for w'
    using cg run by (rule frame_tail)
  show ?thesis
    using e unfolding after_save_def
    by (intro frame_then_do [where N = ?N] k u f)
qed

lemma file_kept_body:
  assumes cg: "\<And>f g x w. fs (snd (check_grad L f g x w)) = fs w"
    and run: "\<And>r a k w. fs (snd (run_optimization L r a k w)) = fs w"
    and e: "ended_by {''check_grad'', ''run_optimization''} (body cfg m fext L w)"
  shows "\<exists>t optim dyn w2. upto_save cfg m fext L w = (t, Inr (optim, dyn), w2) \<and>
    fs (snd (snd (body cfg m fext L w))) = fs w2"
proof -
  let ?N = "{''check_grad'', ''run_optimization''}"
  have a: "avoids ?N (upto_save cfg m fext L)"
    by (rule avoids_upto_save) simp_all
  from e have "ended_by ?N (then_do (upto_save cfg m fext L) (after_save cfg m fext L) w)"
    by (simp add: body_split)
  with a obtain t x w2 where u: "upto_save cfg m fext L w = (t, Inr x, w2)"
    and ea: "ended_by ?N (after_save cfg m fext L x w2)"
    and fin: "snd (snd (then_do (upto_save cfg m fext L) (after_save cfg m fext L) w)) =
      snd (snd (after_save cfg m fext L x w2))"
    by (rule ended_by_then_do)
  have "fs (snd (snd (after_save cfg m fext L x w2))) = fs w2"
    using cg run ea by (rule frame_after_save)
  with u fin show ?thesis
    by (cases x) (auto simp: body_split)
qed



section \<open>The amplitude file when the check or the run raises\<close>

text \<open>
  Claim C10, amended. In every run the call of \<^verbatim>\<open>save_amps\<close> has returned before
  \<^verbatim>\<open>check_grad\<close> is called and before \<^verbatim>\<open>run_optimization\<close> is invoked. So when one of these
  two calls raises and ends the run, the statements of the script up to line 144 have all
  returned, and the last of their actions is the returned call
  \<^verbatim>\<open>dyn.save_amps("ctrl_amps_initial_" + f_ext)\<close>. What that call left on disk is still there
  at the end of the run, provided the gradient check and the optimisation run do not touch
  it: for any observation \<open>fs\<close> of the library state that these two leave unchanged, \<open>fs\<close>
  at the end of the run is what it was in the state the \<^verbatim>\<open>save_amps\<close> call left. Whether the
  file exists in that state is the library's affair: the script does not look at what
  \<^verbatim>\<open>save_amps\<close> did.
\<close>

theorem amplitudes_saved_before_check_and_run:
  "saved_first False (fst (script cfg L w)) \<and>
   (ended_by {''check_grad'', ''run_optimization''} (script cfg L w) \<longrightarrow>
    (\<exists>m fext t optim dyn w1 w2.
       physics (gamma cfg) = Inr m \<and> f_ext cfg = Inr fext \<and>
       upto_save cfg m fext L w = (t, Inr (optim, dyn), w2) \<and>
       last t = (Call (Method dyn ''save_amps'') [PStr (''ctrl_amps_initial_'' @ fext)] [],
                 Returned PNone) \<and>
       save_amps L dyn (''ctrl_amps_initial_'' @ fext) w1 = (Inr (), w2) \<and>
       ((\<forall>f g x w'. fs (snd (check_grad L f g x w')) = fs w') \<longrightarrow>
        (\<forall>r a k w'. fs (snd (run_optimization L r a k w')) = fs w') \<longrightarrow>
        fs (snd (snd (script cfg L w))) = fs w2)))"
proof (intro conjI impI)
  show "saved_first False (fst (script cfg L w))"
    by (simp add: script_body saved_first_body)
next
  assume e: "ended_by {''check_grad'', ''run_optimization''} (script cfg L w)"
  let ?m = "projr (physics (gamma cfg))" and ?fext = "projr (f_ext cfg)"
  have p: "physics (gamma cfg) = Inr ?m" and f: "f_ext cfg = Inr ?fext"
    by (simp_all add: physics_value f_ext_value)
  from e have b: "ended_by {''check_grad'', ''run_optimization''} (body cfg ?m ?fext L w)"
    by (simp add: script_body)
  from file_kept_body [of "\<lambda>_. ()" L cfg ?m ?fext w, OF _ _ b]
  obtain t optim dyn w2 where u: "upto_save cfg ?m ?fext L w = (t, Inr (optim, dyn), w2)"
    by auto
  from upto_save_returned [OF u] obtain w1
    where l: "last t = (Call (Method dyn ''save_amps'') [PStr (''ctrl_amps_initial_'' @ ?fext)] [],
      Returned PNone)"
      and s: "save_amps L dyn (''ctrl_amps_initial_'' @ ?fext) w1 = (Inr (), w2)"
    by (auto simp: pulsefile_def)
  have k: "fs (snd (snd (script cfg L w))) = fs w2"
    if cg: "\<forall>f g x w'. fs (snd (check_grad L f g x w')) = fs w'"
      and run: "\<forall>r a k w'. fs (snd (run_optimization L r a k w')) = fs w'"
    using file_kept_body [of fs L cfg ?m ?fext w, OF cg [rule_format] run [rule_format] b] u
    by (simp add: script_body)
  from p f u l s k show "\<exists>m fext t optim dyn w1 w2.
       physics (gamma cfg) = Inr m \<and> f_ext cfg = Inr fext \<and>
       upto_save cfg m fext L w = (t, Inr (optim, dyn), w2) \<and>
       last t = (Call (Method dyn ''save_amps'') [PStr (''ctrl_amps_initial_'' @ fext)] [],
                 Returned PNone) \<and>
       save_amps L dyn (''ctrl_amps_initial_'' @ fext) w1 = (Inr (), w2) \<and>
       ((\<forall>f g x w'. fs (snd (check_grad L f g x w')) = fs w') \<longrightarrow>
        (\<forall>r a k w'. fs (snd (run_optimization L r a k w')) = fs w') \<longrightarrow>
        fs (snd (snd (script cfg L w))) = fs w2)"
    by blast
qed

text \<open>
  The amended claim on a run: with a gradient check that fails, and a library that writes
  the file when asked and does not touch it afterwards, the module ends in the check, and the
  files of the final state are those the \<^verbatim>\<open>save_amps\<close> call left: the one amplitude file.
\<close>

theorem amplitudes_saved_before_check_and_run_witness:
  "saved_first False (fst (main lib_check_grad_fails world0)) \<and>
   ended_by {''check_grad'', ''run_optimization''} (main lib_check_grad_fails world0) \<and>
   (\<exists>m fext t optim dyn w1 w2.
      physics (gamma script_config) = Inr m \<and> f_ext script_config = Inr fext \<and>
      upto_save script_config m fext lib_check_grad_fails world0 = (t, Inr (optim, dyn), w2) \<and>
      last t = (Call (Method dyn ''save_amps'') [PStr (''ctrl_amps_initial_'' @ fext)] [],
                Returned PNone) \<and>
      save_amps lib_check_grad_fails dyn (''ctrl_amps_initial_'' @ fext) w1 = (Inr (), w2) \<and>
      files (snd (snd (main lib_check_grad_fails world0))) = files w2) \<and>
   map fst (files (snd (snd (main lib_check_grad_fails world0)))) =
     [''ctrl_amps_initial_Lindblad_n_ts10_ptypeLIN.txt'']"
proof -
  have cg: "\<forall>f g x w'. files (snd (check_grad lib_check_grad_fails f g x w')) = files w'"
    by (simp add: lib_check_grad_fails_def)
  have run: "\<forall>r a k w'. files (snd (run_optimization lib_check_grad_fails r a k w')) = files w'"
    by (simp add: lib_check_grad_fails_def)
  have e: "ended_by {''check_grad'', ''run_optimization''}
      (script script_config lib_check_grad_fails world0)"
    using check_grad_fails_last
    by (subst (asm) (1 2) check_grad_fails_run, subst main_def [symmetric],
        subst check_grad_fails_run)
      (simp add: ended_by_def)
  have f: "map fst (files (snd (snd (main lib_check_grad_fails world0)))) =
     [''ctrl_amps_initial_Lindblad_n_ts10_ptypeLIN.txt'']"
    by (subst check_grad_fails_run) simp
  from amplitudes_saved_before_check_and_run
    [of script_config lib_check_grad_fails world0 files] cg run e f
  show ?thesis
    by (simp add: main_def)
qed

text \<open>
  Claim C10 as stated fails. It promises that the file exists when the gradient check
  raises. Run on a library whose \<^verbatim>\<open>save_amps\<close> returns without writing, the module makes
  that call, it returns, the gradient check raises and ends the run, and no file exists.
\<close>

theorem amplitudes_saved_before_check_and_run_counterexample:
  "(Call (Method 2 ''save_amps'') [PStr ''ctrl_amps_initial_Lindblad_n_ts10_ptypeLIN.txt''] [],
    Returned PNone) \<in> set (fst (main lib_nothing_saved world0)) \<and>
   last (fst (main lib_nothing_saved world0)) =
     (Call (Fn ''check_grad'') [PRef 4, PRef 5,
        PArr [0, 0, 1, 1, 2, 2, 3, 3, 4, 4, 5, 5, 6, 6, 7, 7, 8, 8, 9, 9]] [],
      Raised (LibraryError ''FloatingPointError'')) \<and>
   fst (snd (main lib_nothing_saved world0)) = Inl (LibraryError ''FloatingPointError'') \<and>
   files (snd (snd (main lib_nothing_saved world0))) = []"
  by (simp add: main_def script_body physics_value f_ext_value run_defs lib_nothing_saved_def
      lib_check_grad_fails_def eval_defs flatten_def demo_amps)

text \<open>
  The proviso on the gradient check is needed as well: on a library whose check removes the
  files before it fails, the file that \<^verbatim>\<open>save_amps\<close> wrote is gone at the end of the run.
\<close>

lemma file_removed_by_check_grad:
  "fst (snd (main lib_check_grad_cleans world0)) = Inl (LibraryError ''FloatingPointError'') \<and>
   callee_name (fst (last (fst (main lib_check_grad_cleans world0)))) = Some ''check_grad'' \<and>
   files (snd (snd (main lib_check_grad_cleans world0))) = []"
  by (simp add: main_def script_body physics_value f_ext_value run_defs lib_check_grad_cleans_def
      eval_defs flatten_def demo_amps)

section \<open>The value of the gradient check is only printed\<close>





section \<open>The whole module on the small library\<close>

text \<open>
  Claim C3 on a run: with the small library the factory is called once, and the run invokes
  \<^verbatim>\<open>run_optimization\<close> once, on the handle 1 that the factory returned, and ends normally.
\<close>

lemma demo_run_calls:
  "calls_named ''run_optimization'' (fst (main demo_lib world0)) =
     [Call (Method 1 ''run_optimization'') [] []] \<and>
   fst (snd (main demo_lib world0)) = Inr ()"
  by (simp add: main_def script_body physics_value f_ext_value run_defs eval_defs demo_amps
      calls_named_def)

theorem factory_called_once_then_run_witness:
  "length (calls_named ''cpo.create_pulse_optimizer'' (fst (main demo_lib world0))) = 1 \<and>
   calls_named ''run_optimization'' (fst (main demo_lib world0)) =
     [Call (Method 1 ''run_optimization'') [] []] \<and>
   fst (snd (main demo_lib world0)) = Inr ()"
proof -
  from factory_called_once_then_run [of demo_lib world0] obtain a kw outc rest where
    "fst (main demo_lib world0) =
       [(Print (newline # stars), Returned PNone),
        (Print ''Starting pulse optimisation'', Returned PNone),
        (Call (Fn ''cpo.create_pulse_optimizer'') a kw, outc)] @ rest"
    "calls_named ''cpo.create_pulse_optimizer'' rest = []"
    by blast
  then have "length (calls_named ''cpo.create_pulse_optimizer'' (fst (main demo_lib world0))) = 1"
    by (simp add: calls_named_Cons)
  with demo_run_calls show ?thesis
    by simp
qed

end
